theory Spec2Isabelle
  imports Main "HOL-Library.AList"
begin

section \<open>Python values\<close>

text \<open>
  A Python \<open>str\<close> is a sequence of Unicode code points, and \<open>len\<close>, slicing
  and the length bounds of the request models count code points. A string is therefore a
  list of code points; \<open>ascii\<close> embeds an ASCII literal.
\<close>

type_synonym pystr = "nat list"

definition ascii :: "string \<Rightarrow> pystr" where
  "ascii cs = map of_char cs"

text \<open>The store's native identifier: the bytes it holds, twelve of them in an identifier
  that the store generates.\<close>

datatype objectid = OID "nat list"

datatype timezone = utc

record datetime =
  year :: nat
  month :: nat
  day :: nat
  hour :: nat
  minute :: nat
  second :: nat
  microsecond :: nat
  tzinfo :: "timezone option"

datatype pyval =
    PNone
  | PBool bool
  | PInt int
  | PStr pystr
  | PObjectId objectid
  | PDatetime datetime

text \<open>A \<open>dict\<close> keeps its keys in insertion order: an association list, with
  \<open>AList.update\<close> for \<open>d[k] = v\<close> (in place when the key exists, appended
  otherwise) and \<open>AList.delete\<close> for the removal done by \<open>pop\<close>.\<close>

type_synonym document = "(pystr \<times> pyval) list"

subsection \<open>Library functions the handlers rely on\<close>

function decimal :: "nat \<Rightarrow> pystr" where
  "decimal n = (if n < 10 then [48 + n] else decimal (n div 10) @ [48 + n mod 10])"
  by pat_completeness auto
termination
  by (relation "measure (\<lambda>n. n)") auto

declare decimal.simps [simp del]

definition zpad :: "nat \<Rightarrow> nat \<Rightarrow> pystr" where
  "zpad w n = replicate (w - length (decimal n)) 48 @ decimal n"

text \<open>\<open>datetime.isoformat(sep)\<close>: the fraction is printed only when the microseconds
  are not zero, the offset only for an aware value.\<close>

definition isoformat_sep :: "pystr \<Rightarrow> datetime \<Rightarrow> pystr" where
  "isoformat_sep sep dt =
     zpad 4 (year dt) @ ascii ''-'' @ zpad 2 (month dt) @ ascii ''-'' @ zpad 2 (day dt)
     @ sep
     @ zpad 2 (hour dt) @ ascii '':'' @ zpad 2 (minute dt) @ ascii '':'' @ zpad 2 (second dt)
     @ (if microsecond dt = 0 then [] else ascii ''.'' @ zpad 6 (microsecond dt))
     @ (case tzinfo dt of None \<Rightarrow> [] | Some utc \<Rightarrow> ascii ''+00:00'')"

definition isoformat :: "datetime \<Rightarrow> pystr" where
  "isoformat dt = isoformat_sep (ascii ''T'') dt"

text \<open>\<open>bytes.fromhex(s)\<close>: pairs of hexadecimal digits, with ASCII whitespace skipped
  before a pair and at the end, but not inside a pair; \<open>None\<close> is the \<open>ValueError\<close>
  for any other string.\<close>

definition is_space :: "nat \<Rightarrow> bool" where
  "is_space c = (c = 32 \<or> (9 \<le> c \<and> c \<le> 13))"

definition hex_value :: "nat \<Rightarrow> nat option" where
  "hex_value c =
     (if 48 \<le> c \<and> c \<le> 57 then Some (c - 48)
      else if 97 \<le> c \<and> c \<le> 102 then Some (c - 87)
      else if 65 \<le> c \<and> c \<le> 70 then Some (c - 55)
      else None)"

fun fromhex :: "pystr \<Rightarrow> nat list option" where
  "fromhex [] = Some []"
| "fromhex [c] = (if is_space c then Some [] else None)"
| "fromhex (c # c' # cs) =
     (if is_space c then fromhex (c' # cs)
      else (case (hex_value c, hex_value c') of
              (Some h, Some l) \<Rightarrow> map_option ((#) (16 * h + l)) (fromhex cs)
            | _ \<Rightarrow> None))"

text \<open>\<open>binascii.hexlify\<close>: two lower-case digits for each byte.\<close>

definition hexdigit :: "nat \<Rightarrow> nat" where
  "hexdigit n = (if n < 10 then 48 + n else 87 + n)"

definition hexlify :: "nat list \<Rightarrow> pystr" where
  "hexlify bs = concat (map (\<lambda>b. [hexdigit (b div 16), hexdigit (b mod 16)]) bs)"

text \<open>\<open>str(v)\<close> for the values of the model; for an identifier, the digits of its
  bytes.\<close>

fun str :: "pyval \<Rightarrow> pystr" where
  "str PNone = ascii ''None''"
| "str (PBool b) = (if b then ascii ''True'' else ascii ''False'')"
| "str (PInt i) = (if i < 0 then ascii ''-'' @ decimal (nat (- i)) else decimal (nat i))"
| "str (PStr s) = s"
| "str (PObjectId (OID bs)) = hexlify bs"
| "str (PDatetime dt) = isoformat_sep (ascii '' '') dt"

text \<open>\<open>hasattr(v, "isoformat")\<close>: of the values above only a datetime has the method.\<close>

fun has_isoformat :: "pyval \<Rightarrow> bool" where
  "has_isoformat (PDatetime dt) = True"
| "has_isoformat v = False"

text \<open>The identifier codec of the driver. \<open>ObjectId(s)\<close> accepts a string of 24
  characters that \<open>bytes.fromhex\<close> reads, and holds the bytes read; for any other string
  it raises \<open>InvalidId\<close>. \<open>ObjectId.is_valid(s)\<close> is false for an empty \<open>s\<close> and
  otherwise tells whether \<open>ObjectId(s)\<close> is accepted. So a string of 24 hexadecimal
  digits is valid, and so is a string of 24 characters made of pairs of digits and
  whitespace, which gives fewer than twelve bytes.\<close>

definition is_valid :: "pystr \<Rightarrow> bool" where
  "is_valid s = (s \<noteq> [] \<and> length s = 24 \<and> fromhex s \<noteq> None)"

text \<open>The handlers build \<open>ObjectId(s)\<close> only from a string that \<open>is_valid\<close> accepted
  (\<open>create_project\<close> has the \<open>InvalidId\<close> of the other case as a branch of its own);
  for such a string the bytes are those that \<open>fromhex\<close> reads.\<close>

definition ObjectId :: "pystr \<Rightarrow> objectid" where
  "ObjectId s = OID (case fromhex s of Some bs \<Rightarrow> bs | None \<Rightarrow> [])"



section \<open>Serialization layer\<close>

definition k__id :: pystr where "k__id = ascii ''_id''"
definition k_id :: pystr where "k_id = ascii ''id''"

text \<open>The loop of \<open>serialize_doc\<close> runs over a snapshot of the items and assigns
  into the dictionary.\<close>

fun isoformat_items :: "(pystr \<times> pyval) list \<Rightarrow> document \<Rightarrow> document" where
  "isoformat_items [] d = d"
| "isoformat_items ((k, v) # items) d =
     isoformat_items items
       (if has_isoformat v
        then (case v of PDatetime dt \<Rightarrow> AList.update k (PStr (isoformat dt)) d | _ \<Rightarrow> d)
        else d)"

text \<open>\<open>serialize_doc\<close>. The argument is a dictionary or \<open>None\<close>; \<open>not doc\<close>
  holds for \<open>None\<close> and for the empty dictionary. \<open>d.pop("_id", None)\<close> gives
  \<open>None\<close> both for a missing key and for a stored \<open>None\<close>.\<close>

definition serialize_doc :: "document option \<Rightarrow> document option" where
  "serialize_doc doc =
     (case doc of
        None \<Rightarrow> None
      | Some d0 \<Rightarrow>
          if d0 = [] then Some d0
          else
            let popped = (case map_of d0 k__id of None \<Rightarrow> PNone | Some v \<Rightarrow> v);
                d1 = AList.delete k__id d0;
                d2 = (if popped \<noteq> PNone then AList.update k_id (PStr (str popped)) d1 else d1)
            in Some (isoformat_items d2 d2))"

section \<open>Models\<close>

definition k_name :: pystr where "k_name = ascii ''name''"
definition k_description :: pystr where "k_description = ascii ''description''"
definition k_status :: pystr where "k_status = ascii ''status''"
definition k_owner_email :: pystr where "k_owner_email = ascii ''owner_email''"
definition k_due_date :: pystr where "k_due_date = ascii ''due_date''"
definition k_created_at :: pystr where "k_created_at = ascii ''created_at''"
definition k_updated_at :: pystr where "k_updated_at = ascii ''updated_at''"

record ProjectCreate =
  name :: pystr
  description :: "pystr option"
  status :: pystr
  owner_email :: "pystr option"
  due_date :: "pystr option"

text \<open>\<open>ProjectOut\<close> inherits the fields of \<open>ProjectCreate\<close>.\<close>

record ProjectOut = ProjectCreate +
  id' :: pystr
  created_at :: "pystr option"
  updated_at :: "pystr option"

text \<open>A field of \<open>ProjectUpdate\<close> is unset (absent from the request), or was given,
  as \<open>null\<close> or as a string: the model remembers which fields were set.\<close>

datatype 'a field = Unset | Given 'a

record ProjectUpdate =
  u_name :: "pystr option field"
  u_description :: "pystr option field"
  u_status :: "pystr option field"
  u_owner_email :: "pystr option field"
  u_due_date :: "pystr option field"

subsection \<open>Validation of the fields\<close>

text \<open>A \<open>str\<close> field accepts a string only, within \<open>min_length\<close> and
  \<open>max_length\<close> when they are declared.\<close>

definition check_str :: "nat option \<Rightarrow> nat option \<Rightarrow> pyval \<Rightarrow> pystr option" where
  "check_str min_length max_length v =
     (case v of
        PStr s \<Rightarrow>
          if (case min_length of None \<Rightarrow> True | Some lo \<Rightarrow> lo \<le> length s)
             \<and> (case max_length of None \<Rightarrow> True | Some hi \<Rightarrow> length s \<le> hi)
          then Some s else None
      | _ \<Rightarrow> None)"

text \<open>\<open>Field(...)\<close>: the field is required.\<close>

definition required_str :: "nat option \<Rightarrow> nat option \<Rightarrow> pyval option \<Rightarrow> pystr option" where
  "required_str min_length max_length x =
     (case x of None \<Rightarrow> None | Some v \<Rightarrow> check_str min_length max_length v)"

text \<open>\<open>str = Field(default)\<close>: the default when the field is absent.\<close>

definition default_str :: "pystr \<Rightarrow> pyval option \<Rightarrow> pystr option" where
  "default_str dflt x = (case x of None \<Rightarrow> Some dflt | Some v \<Rightarrow> check_str None None v)"

text \<open>\<open>Optional[str] = Field(None, ...)\<close>: absent and \<open>null\<close> both give
  \<open>None\<close>; the bounds apply to a string.\<close>

definition optional_str ::
  "nat option \<Rightarrow> nat option \<Rightarrow> pyval option \<Rightarrow> pystr option option" where
  "optional_str min_length max_length x =
     (case x of
        None \<Rightarrow> Some None
      | Some PNone \<Rightarrow> Some None
      | Some v \<Rightarrow> map_option Some (check_str min_length max_length v))"

text \<open>The same for \<open>ProjectUpdate\<close>, keeping whether the field was set.\<close>

definition optional_str_field ::
  "nat option \<Rightarrow> nat option \<Rightarrow> pyval option \<Rightarrow> pystr option field option" where
  "optional_str_field min_length max_length x =
     (case x of
        None \<Rightarrow> Some Unset
      | Some PNone \<Rightarrow> Some (Given None)
      | Some v \<Rightarrow> map_option (\<lambda>s. Given (Some s)) (check_str min_length max_length v))"

subsection \<open>Validation of the models\<close>

text \<open>Each model is built from a dictionary (the parsed JSON body, or the keyword
  arguments); keys that are not fields are ignored. \<open>None\<close> is a validation error.\<close>

definition ProjectCreate_validate :: "document \<Rightarrow> ProjectCreate option" where
  "ProjectCreate_validate d =
     Option.bind (required_str (Some 1) (Some 120) (map_of d k_name)) (\<lambda>n.
     Option.bind (optional_str None (Some 2000) (map_of d k_description)) (\<lambda>de.
     Option.bind (default_str (ascii ''active'') (map_of d k_status)) (\<lambda>st.
     Option.bind (optional_str None None (map_of d k_owner_email)) (\<lambda>ow.
     Option.bind (optional_str None None (map_of d k_due_date)) (\<lambda>du.
       Some \<lparr>name = n, description = de, status = st, owner_email = ow, due_date = du\<rparr>)))))"

definition ProjectUpdate_validate :: "document \<Rightarrow> ProjectUpdate option" where
  "ProjectUpdate_validate d =
     Option.bind (optional_str_field (Some 1) (Some 120) (map_of d k_name)) (\<lambda>n.
     Option.bind (optional_str_field None (Some 2000) (map_of d k_description)) (\<lambda>de.
     Option.bind (optional_str_field None None (map_of d k_status)) (\<lambda>st.
     Option.bind (optional_str_field None None (map_of d k_owner_email)) (\<lambda>ow.
     Option.bind (optional_str_field None None (map_of d k_due_date)) (\<lambda>du.
       Some \<lparr>u_name = n, u_description = de, u_status = st, u_owner_email = ow,
             u_due_date = du\<rparr>)))))"

definition ProjectOut_validate :: "document \<Rightarrow> ProjectOut option" where
  "ProjectOut_validate d =
     Option.bind (ProjectCreate_validate d) (\<lambda>p.
     Option.bind (required_str None None (map_of d k_id)) (\<lambda>i.
     Option.bind (optional_str None None (map_of d k_created_at)) (\<lambda>c.
     Option.bind (optional_str None None (map_of d k_updated_at)) (\<lambda>u.
       Some \<lparr>name = name p, description = description p, status = status p,
             owner_email = owner_email p, due_date = due_date p,
             id' = i, created_at = c, updated_at = u\<rparr>))))"

text \<open>\<open>payload.model_dump(exclude_unset=True)\<close>: the fields that were set, in the
  order of their declaration, a field given as \<open>null\<close> included.\<close>

definition dump_field :: "pystr \<Rightarrow> pystr option field \<Rightarrow> document" where
  "dump_field k f =
     (case f of Unset \<Rightarrow> [] | Given None \<Rightarrow> [(k, PNone)] | Given (Some s) \<Rightarrow> [(k, PStr s)])"

definition model_dump_exclude_unset :: "ProjectUpdate \<Rightarrow> document" where
  "model_dump_exclude_unset p =
     dump_field k_name (u_name p) @ dump_field k_description (u_description p)
     @ dump_field k_status (u_status p) @ dump_field k_owner_email (u_owner_email p)
     @ dump_field k_due_date (u_due_date p)"

text \<open>The fields of \<open>ProjectUpdate\<close>.\<close>

definition ProjectUpdate_fields :: "pystr list" where
  "ProjectUpdate_fields = [k_name, k_description, k_status, k_owner_email, k_due_date]"

section \<open>Errors and responses\<close>

text \<open>An exception is known by its message, \<open>str(e)\<close>.\<close>

datatype exn = Exception pystr

fun str_exn :: "exn \<Rightarrow> pystr" where
  "str_exn (Exception msg) = msg"

text \<open>What a request can end with instead of a result: an \<open>HTTPException\<close> raised by
  the handler, the framework's rejection of a body that fails its model, or an exception
  that nothing catches.\<close>

datatype error =
    HTTPException nat pystr
  | RequestValidationError
  | ValidationError
  | TypeError
  | InvalidId
  | Raised exn

fun status_code :: "error + 'a \<Rightarrow> nat" where
  "status_code (Inl (HTTPException code detail)) = code"
| "status_code (Inl RequestValidationError) = 422"
| "status_code (Inl e) = 500"
| "status_code (Inr r) = 200"

section \<open>The document store\<close>

text \<open>The process-wide handle \<open>db\<close> is \<open>None\<close> or a database. A database holds its
  collections, each a sequence of documents in the store's own order, and the record of
  the operations made on its collections. \<open>db_name\<close> and \<open>list_collection_names\<close>
  are what the attribute \<open>db.name\<close> and the call \<open>db.list_collection_names()\<close>
  give, which may be an exception.\<close>

datatype store_call =
    FindOne pystr objectid
  | FindOneAndUpdate pystr objectid document
  | DeleteOne pystr objectid

datatype attr = NoAttribute | Attribute pystr | AttributeRaises exn

record Database =
  db_name :: attr
  list_collection_names :: "exn + pystr list"
  colls :: "pystr \<Rightarrow> document list"
  calls :: "store_call list"

definition COLL :: pystr where
  "COLL = ascii ''project''"

text \<open>The filter \<open>{"_id": oid}\<close>.\<close>

definition matches_id :: "objectid \<Rightarrow> document \<Rightarrow> bool" where
  "matches_id oid doc = (map_of doc k__id = Some (PObjectId oid))"

definition find_one :: "document list \<Rightarrow> objectid \<Rightarrow> document option" where
  "find_one docs oid = List.find (matches_id oid) docs"

text \<open>\<open>{"$set": changes}\<close> assigns each field of the patch and leaves the others.\<close>

definition set_fields :: "document \<Rightarrow> document \<Rightarrow> document" where
  "set_fields changes doc = fold (\<lambda>(k, v). AList.update k v) changes doc"

text \<open>\<open>find_one_and_update(filter, {"$set": changes}, return_document=True)\<close>: the first
  matching document is patched and returned as it is after the update.\<close>

fun find_one_and_update ::
  "document list \<Rightarrow> objectid \<Rightarrow> document \<Rightarrow> document option \<times> document list" where
  "find_one_and_update [] oid changes = (None, [])"
| "find_one_and_update (d # ds) oid changes =
     (if matches_id oid d then (Some (set_fields changes d), set_fields changes d # ds)
      else (case find_one_and_update ds oid changes of (res, ds') \<Rightarrow> (res, d # ds')))"

text \<open>\<open>delete_one(filter)\<close> removes the first matching document and counts it.\<close>

fun delete_one :: "document list \<Rightarrow> objectid \<Rightarrow> nat \<times> document list" where
  "delete_one [] oid = (0, [])"
| "delete_one (d # ds) oid =
     (if matches_id oid d then (1, ds)
      else (case delete_one ds oid of (n, ds') \<Rightarrow> (n, d # ds')))"

section \<open>Request handlers\<close>

text \<open>\<open>ProjectOut(**doc)\<close>: unpacking \<open>None\<close> is a \<open>TypeError\<close>, a dictionary that
  fails the model a \<open>ValidationError\<close>.\<close>

definition ProjectOut_new :: "document option \<Rightarrow> error + ProjectOut" where
  "ProjectOut_new doc =
     (case doc of
        None \<Rightarrow> Inl TypeError
      | Some d \<Rightarrow> (case ProjectOut_validate d of None \<Rightarrow> Inl ValidationError | Some p \<Rightarrow> Inr p))"

text \<open>\<open>datetime.now(timezone.utc)\<close>: the reading of the clock, as an aware value.\<close>

definition now_utc :: "datetime \<Rightarrow> datetime" where
  "now_utc clock = clock\<lparr>tzinfo := Some utc\<rparr>"

text \<open>\<open>update_project\<close>. The handler returns its result and leaves the store in a new
  state; \<open>clock\<close> is the time the handler reads.\<close>

definition update_project ::
  "Database option \<Rightarrow> datetime \<Rightarrow> pystr \<Rightarrow> ProjectUpdate
     \<Rightarrow> (error + ProjectOut) \<times> Database option" where
  "update_project db clock project_id payload =
     (if \<not> is_valid project_id
      then (Inl (HTTPException 400 (ascii ''Invalid project id'')), db)
      else
        let changes = model_dump_exclude_unset payload in
        if changes = []
        then (Inl (HTTPException 400 (ascii ''No changes provided'')), db)
        else
          let changes = AList.update k_updated_at (PDatetime (now_utc clock)) changes in
          (case db of
             None \<Rightarrow> (Inl TypeError, db)
           | Some d \<Rightarrow>
               let oid = ObjectId project_id;
                   (res, docs) = find_one_and_update (colls d COLL) oid changes;
                   db' = Some (d\<lparr>colls := (colls d)(COLL := docs),
                                 calls := calls d @ [FindOneAndUpdate COLL oid changes]\<rparr>)
               in if res = None \<or> res = Some []
                  then (Inl (HTTPException 404 (ascii ''Project not found'')), db')
                  else (ProjectOut_new (serialize_doc res), db')))"

text \<open>\<open>delete_project\<close>; the result is the body \<open>{"ok": True}\<close>.\<close>

definition delete_project ::
  "Database option \<Rightarrow> pystr \<Rightarrow> (error + document) \<times> Database option" where
  "delete_project db project_id =
     (if \<not> is_valid project_id
      then (Inl (HTTPException 400 (ascii ''Invalid project id'')), db)
      else
        (case db of
           None \<Rightarrow> (Inl TypeError, db)
         | Some d \<Rightarrow>
             let oid = ObjectId project_id;
                 (deleted_count, docs) = delete_one (colls d COLL) oid;
                 db' = Some (d\<lparr>colls := (colls d)(COLL := docs),
                               calls := calls d @ [DeleteOne COLL oid]\<rparr>)
             in if deleted_count = 0
                then (Inl (HTTPException 404 (ascii ''Project not found'')), db')
                else (Inr [(ascii ''ok'', PBool True)], db')))"

text \<open>The list comprehension of \<open>list_projects\<close> stops at the first exception.\<close>

fun collect :: "(error + 'a) list \<Rightarrow> error + 'a list" where
  "collect [] = Inr []"
| "collect (Inl e # rs) = Inl e"
| "collect (Inr x # rs) = (case collect rs of Inl e \<Rightarrow> Inl e | Inr xs \<Rightarrow> Inr (x # xs))"

text \<open>\<open>list_projects\<close>. The module \<open>database\<close> is not part of the sources read here:
  its function \<open>get_documents\<close> is a parameter, giving the documents it fetches for a
  collection, a filter and a limit, or the exception it raises. The query parameter
  \<open>limit\<close> is absent or an integer.\<close>

definition list_projects ::
  "(pystr \<Rightarrow> document \<Rightarrow> int \<Rightarrow> exn + document list) \<Rightarrow> int option
     \<Rightarrow> error + ProjectOut list" where
  "list_projects get_documents limit_param =
     (let limit = (case limit_param of None \<Rightarrow> 100 | Some n \<Rightarrow> n) in
      case get_documents COLL [] limit of
        Inl e \<Rightarrow> Inl (Raised e)
      | Inr docs \<Rightarrow> collect (map (\<lambda>d. ProjectOut_new (serialize_doc (Some d))) docs))"

text \<open>\<open>create_project\<close>. \<open>create_document\<close>, of the same module, is a parameter too:
  from the store, the collection and the payload it gives the new identifier as a string,
  or the exception it raises, and the store it leaves. \<open>db[COLL]\<close> is evaluated before
  \<open>ObjectId(new_id)\<close>.\<close>

definition create_project ::
  "(Database option \<Rightarrow> pystr \<Rightarrow> ProjectCreate \<Rightarrow> (exn + pystr) \<times> Database option)
     \<Rightarrow> Database option \<Rightarrow> ProjectCreate \<Rightarrow> (error + ProjectOut) \<times> Database option" where
  "create_project create_document db payload =
     (case create_document db COLL payload of
        (Inl e, db1) \<Rightarrow> (Inl (Raised e), db1)
      | (Inr new_id, db1) \<Rightarrow>
          (case db1 of
             None \<Rightarrow> (Inl TypeError, db1)
           | Some d \<Rightarrow>
               if \<not> is_valid new_id then (Inl InvalidId, db1)
               else
                 let oid = ObjectId new_id;
                     doc = find_one (colls d COLL) oid;
                     db2 = Some (d\<lparr>calls := calls d @ [FindOne COLL oid]\<rparr>)
                 in (ProjectOut_new (serialize_doc doc), db2)))"

text \<open>The routes: the framework builds the payload from the JSON body and answers 422
  itself, without calling the handler, when the body fails the model.\<close>

definition post_api_projects ::
  "(Database option \<Rightarrow> pystr \<Rightarrow> ProjectCreate \<Rightarrow> (exn + pystr) \<times> Database option)
     \<Rightarrow> Database option \<Rightarrow> document \<Rightarrow> (error + ProjectOut) \<times> Database option" where
  "post_api_projects create_document db body =
     (case ProjectCreate_validate body of
        None \<Rightarrow> (Inl RequestValidationError, db)
      | Some payload \<Rightarrow> create_project create_document db payload)"

definition put_api_projects ::
  "Database option \<Rightarrow> datetime \<Rightarrow> pystr \<Rightarrow> document
     \<Rightarrow> (error + ProjectOut) \<times> Database option" where
  "put_api_projects db clock project_id body =
     (case ProjectUpdate_validate body of
        None \<Rightarrow> (Inl RequestValidationError, db)
      | Some payload \<Rightarrow> update_project db clock project_id payload)"

section \<open>Diagnostics endpoint\<close>

text \<open>The environment, and the truth value of \<open>os.getenv(k)\<close>: a variable that is not
  set gives \<open>None\<close>, and the empty string is false as well.\<close>

type_synonym environ = "pystr \<rightharpoonup> pystr"

definition getenv :: "environ \<Rightarrow> pystr \<Rightarrow> pystr option" where
  "getenv env k = env k"

definition truthy :: "pystr option \<Rightarrow> bool" where
  "truthy x = (case x of None \<Rightarrow> False | Some s \<Rightarrow> s \<noteq> [])"

text \<open>The three signs of the messages, as code points: U+2705, U+274C, and U+26A0 with
  its variation selector U+FE0F.\<close>

definition check_mark :: pystr where "check_mark = [9989]"
definition cross_mark :: pystr where "cross_mark = [10060]"
definition warning_sign :: pystr where "warning_sign = [9888, 65039]"

definition SET :: pystr where "SET = check_mark @ ascii '' Set''"
definition NOT_SET :: pystr where "NOT_SET = cross_mark @ ascii '' Not Set''"

record diagnostics =
  backend :: pystr
  database :: pystr
  database_url :: "pystr option"
  database_name :: "pystr option"
  connection_status :: pystr
  collections :: "pystr list"

text \<open>The body of the outer \<open>try\<close>: the response as the statements left it, and the
  exception that escaped, if one did. The inner \<open>try\<close> catches what
  \<open>list_collection_names\<close> raises.\<close>

definition try_body :: "Database option \<Rightarrow> diagnostics \<Rightarrow> diagnostics \<times> exn option" where
  "try_body db response =
     (case db of
        None \<Rightarrow>
          (response\<lparr>database := warning_sign @ ascii ''  Available but not initialized''\<rparr>,
           None)
      | Some d \<Rightarrow>
          let r1 = response\<lparr>database := check_mark @ ascii '' Available''\<rparr>;
              r2 = r1\<lparr>database_url := Some (check_mark @ ascii '' Configured'')\<rparr>
          in (case db_name d of
                AttributeRaises e \<Rightarrow> (r2, Some e)
              | a \<Rightarrow>
                  let r3 = r2\<lparr>database_name :=
                              Some (case a of Attribute n \<Rightarrow> n
                                    | _ \<Rightarrow> check_mark @ ascii '' Connected'')\<rparr>;
                      r4 = r3\<lparr>connection_status := ascii ''Connected''\<rparr>
                  in (case list_collection_names d of
                        Inr names \<Rightarrow>
                          (r4\<lparr>collections := take 10 names,
                              database := check_mark @ ascii '' Connected & Working''\<rparr>,
                           None)
                      | Inl e \<Rightarrow>
                          (r4\<lparr>database := warning_sign @ ascii ''  Connected but Error: ''
                                            @ take 50 (str_exn e)\<rparr>,
                           None))))"

text \<open>The response as the handler first builds it.\<close>

definition initial_response :: diagnostics where
  "initial_response = \<lparr>backend = check_mark @ ascii '' Running'',
                      database = cross_mark @ ascii '' Not Available'',
                      database_url = None,
                      database_name = None,
                      connection_status = ascii ''Not Connected'',
                      collections = []\<rparr>"

definition test_database :: "Database option \<Rightarrow> environ \<Rightarrow> error + diagnostics" where
  "test_database db env =
     (let response = initial_response;
          response1 = (case try_body db response of
                         (r, None) \<Rightarrow> r
                       | (r, Some e) \<Rightarrow>
                           r\<lparr>database := cross_mark @ ascii '' Error: '' @ take 50 (str_exn e)\<rparr>);
          response2 = response1\<lparr>database_url :=
                        Some (if truthy (getenv env (ascii ''DATABASE_URL'')) then SET else NOT_SET)\<rparr>;
          response3 = response2\<lparr>database_name :=
                        Some (if truthy (getenv env (ascii ''DATABASE_NAME'')) then SET else NOT_SET)\<rparr>
      in Inr response3)"

section \<open>The store adapter\<close>

text \<open>An \<open>Optional[str]\<close> field as a value of a document.\<close>

definition opt_val :: "pystr option \<Rightarrow> pyval" where
  "opt_val x = (case x of None \<Rightarrow> PNone | Some s \<Rightarrow> PStr s)"

text \<open>\<open>payload.model_dump()\<close> of a \<open>ProjectCreate\<close>: every field, with its default
  when it was not given.\<close>

definition model_dump :: "ProjectCreate \<Rightarrow> document" where
  "model_dump p =
     [(k_name, PStr (name p)),
      (k_description, opt_val (description p)),
      (k_status, PStr (status p)),
      (k_owner_email, opt_val (owner_email p)),
      (k_due_date, opt_val (due_date p))]"

text \<open>Modelled from the spec: the document that \<open>create_document\<close> of the module
  \<open>database\<close>, which is not among the sources, inserts for a record: the fields of the
  record, the identifier that the store assigns and a server-assigned \<open>created_at\<close>.\<close>

definition new_document :: "objectid \<Rightarrow> datetime \<Rightarrow> ProjectCreate \<Rightarrow> document" where
  "new_document new_oid clock record =
     (k__id, PObjectId new_oid) # model_dump record
       @ [(k_created_at, PDatetime (now_utc clock))]"

text \<open>Modelled from the spec: \<open>create_document\<close> of the module \<open>database\<close>, which
  is not among the sources. It inserts the record into the collection and returns the newly
  assigned identifier, as a string; it fails when there is no connection. The identifier
  that the store assigns and the time are arguments.\<close>

definition create_document_spec ::
  "objectid \<Rightarrow> datetime \<Rightarrow> Database option \<Rightarrow> pystr \<Rightarrow> ProjectCreate
     \<Rightarrow> (exn + pystr) \<times> Database option" where
  "create_document_spec new_oid clock db coll record =
     (case db of
        None \<Rightarrow> (Inl (Exception (ascii ''StoreUnavailable'')), db)
      | Some d \<Rightarrow>
          (Inr (str (PObjectId new_oid)),
           Some (d\<lparr>colls := (colls d)
                   (coll := colls d coll @ [new_document new_oid clock record])\<rparr>)))"

text \<open>Modelled from the spec: \<open>get_documents\<close> of the module \<open>database\<close>, which is
  not among the sources. It returns up to \<open>limit\<close> matching documents in the store's own
  order; it fails when there is no connection.\<close>

definition get_documents_spec ::
  "Database option \<Rightarrow> pystr \<Rightarrow> document \<Rightarrow> int \<Rightarrow> exn + document list" where
  "get_documents_spec db coll filter_dict limit =
     (case db of
        None \<Rightarrow> Inl (Exception (ascii ''StoreUnavailable''))
      | Some d \<Rightarrow>
          Inr (take (nat limit)
                 (filter (\<lambda>doc. list_all (\<lambda>(k, v). map_of doc k = Some v) filter_dict)
                    (colls d coll))))"

section \<open>Example data\<close>

text \<open>A store with one project, an identifier that is well formed but not in the store,
  and some request payloads.\<close>

definition example_id :: pystr where
  "example_id = ascii ''507f1f77bcf86cd799439011''"

definition missing_id :: pystr where
  "missing_id = ascii ''0123456789abcdefABCDEF01''"

definition example_clock :: datetime where
  "example_clock = \<lparr>year = 2024, month = 3, day = 9, hour = 1, minute = 2, second = 3,
                     microsecond = 0, tzinfo = None\<rparr>"

definition example_doc :: document where
  "example_doc =
     [(k__id, PObjectId (ObjectId example_id)),
      (k_name, PStr (ascii ''Launch'')),
      (k_description, PNone),
      (k_status, PStr (ascii ''active'')),
      (k_owner_email, PNone),
      (k_due_date, PNone),
      (k_created_at, PDatetime example_clock)]"

definition example_db :: Database where
  "example_db = \<lparr>db_name = Attribute (ascii ''app''),
                  list_collection_names = Inr [COLL],
                  colls = (\<lambda>c. if c = COLL then [example_doc] else []),
                  calls = []\<rparr>"

definition status_completed :: ProjectUpdate where
  "status_completed = \<lparr>u_name = Unset, u_description = Unset,
                        u_status = Given (Some (ascii ''completed'')),
                        u_owner_email = Unset, u_due_date = Unset\<rparr>"

definition no_fields :: ProjectUpdate where
  "no_fields = \<lparr>u_name = Unset, u_description = Unset, u_status = Unset,
                 u_owner_email = Unset, u_due_date = Unset\<rparr>"

definition status_body :: document where
  "status_body = [(k_status, PStr (ascii ''completed''))]"

definition null_name_body :: document where
  "null_name_body = [(k_name, PNone)]"

definition null_name :: ProjectUpdate where
  "null_name = \<lparr>u_name = Given None, u_description = Unset, u_status = Unset,
                 u_owner_email = Unset, u_due_date = Unset\<rparr>"

definition launch_body :: document where
  "launch_body = [(k_name, PStr (ascii ''Launch''))]"

definition empty_name_body :: document where
  "empty_name_body = [(k_name, PStr [])]"

definition launch :: ProjectCreate where
  "launch = \<lparr>name = ascii ''Launch'', description = None, status = ascii ''active'',
              owner_email = None, due_date = None\<rparr>"

definition nameless_doc :: document where
  "nameless_doc =
     [(k__id, PObjectId (ObjectId example_id)),
      (k_name, PNone),
      (k_description, PNone),
      (k_status, PStr (ascii ''active'')),
      (k_owner_email, PNone),
      (k_due_date, PNone),
      (k_created_at, PDatetime example_clock),
      (k_updated_at, PDatetime (now_utc example_clock))]"

text \<open>Stores whose driver fails: the listing of the collections raises, or the attribute
  \<open>name\<close> does, each with a message of 60 characters; a store with twelve collections;
  and two environments, one with an empty \<open>DATABASE_URL\<close>.\<close>

definition failing_db :: Database where
  "failing_db = example_db\<lparr>list_collection_names := Inl (Exception (replicate 60 120))\<rparr>"

definition broken_db :: Database where
  "broken_db = example_db\<lparr>db_name := AttributeRaises (Exception (replicate 60 120))\<rparr>"

definition crowded_db :: Database where
  "crowded_db = example_db\<lparr>list_collection_names := Inr (map (\<lambda>n. [97 + n]) [0..<12])\<rparr>"

definition empty_url_env :: environ where
  "empty_url_env = (\<lambda>k. if k = ascii ''DATABASE_URL'' then Some []
                         else if k = ascii ''DATABASE_NAME'' then Some (ascii ''app'') else None)"

definition full_env :: environ where
  "full_env = (\<lambda>k. if k = ascii ''DATABASE_URL'' then Some (ascii ''mongodb://localhost:27017'')
                    else if k = ascii ''DATABASE_NAME'' then Some (ascii ''app'') else None)"


definition new_id_bytes :: "nat list" where
  "new_id_bytes = [1, 35, 69, 103, 137, 171, 205, 239, 171, 205, 239, 1]"

section \<open>Basic facts\<close>

lemma ascii_inj [simp]: "ascii a = ascii b \<longleftrightarrow> a = b"
  by (simp add: ascii_def inj_of_char)

lemma ascii_eq_Nil [simp]: "(ascii s = []) = (s = [])"
  by (simp add: ascii_def)

lemma length_ascii [simp]: "length (ascii s) = length s"
  by (simp add: ascii_def)

lemmas key_defs = k__id_def k_id_def k_name_def k_description_def k_status_def
  k_owner_email_def k_due_date_def k_created_at_def k_updated_at_def


lemma example_id_valid: "is_valid example_id"
  by (simp add: is_valid_def example_id_def is_space_def hex_value_def ascii_def)

lemma missing_id_valid: "is_valid missing_id"
  by (simp add: is_valid_def missing_id_def is_space_def hex_value_def ascii_def)

section \<open>Facts about patches\<close>

lemma set_fields_Cons: "set_fields ((k, v) # ch) doc = set_fields ch (AList.update k v doc)"
  by (simp add: set_fields_def)

lemma set_fields_other:
  "k \<notin> fst ` set ch \<Longrightarrow> map_of (set_fields ch doc) k = map_of doc k"
proof (induction ch arbitrary: doc)
  case Nil
  then show ?case by (simp add: set_fields_def)
next
  case (Cons x ch)
  obtain k' v' where x: "x = (k', v')" by (cases x)
  from Cons.prems x have "k \<noteq> k'" and "k \<notin> fst ` set ch" by auto
  with Cons.IH [of "AList.update k' v' doc"] x show ?case
    by (simp add: set_fields_Cons update_conv')
qed

lemma set_fields_member:
  "distinct (map fst ch) \<Longrightarrow> (k, v) \<in> set ch \<Longrightarrow> map_of (set_fields ch doc) k = Some v"
proof (induction ch arbitrary: doc)
  case Nil
  then show ?case by simp
next
  case (Cons x ch)
  obtain k' v' where x: "x = (k', v')" by (cases x)
  show ?case
  proof (cases "(k, v) = (k', v')")
    case True
    with Cons.prems x have "k \<notin> fst ` set ch" by auto
    then have "map_of (set_fields ch (AList.update k v doc)) k = map_of (AList.update k v doc) k"
      by (rule set_fields_other)
    with True x show ?thesis by (simp add: set_fields_Cons update_conv')
  next
    case False
    with Cons.prems x have "(k, v) \<in> set ch" and "distinct (map fst ch)" by auto
    with Cons.IH [of "AList.update k' v' doc"] x show ?thesis
      by (simp add: set_fields_Cons)
  qed
qed

lemma update_new_key: "k \<notin> fst ` set xs \<Longrightarrow> AList.update k v xs = xs @ [(k, v)]"
  by (induction xs) auto

lemma dump_field_fst: "map fst (dump_field k f) = (if f = Unset then [] else [k])"
proof (cases f)
  case Unset
  then show ?thesis by (simp add: dump_field_def)
next
  case (Given x)
  then show ?thesis by (cases x) (simp_all add: dump_field_def)
qed

lemma ProjectUpdate_fields_distinct: "distinct ProjectUpdate_fields"
  by (simp add: ProjectUpdate_fields_def key_defs)

lemma model_dump_fst:
  "map fst (model_dump_exclude_unset p)
     = filter (\<lambda>k. (k = k_name \<and> u_name p \<noteq> Unset) \<or> (k = k_description \<and> u_description p \<noteq> Unset)
                  \<or> (k = k_status \<and> u_status p \<noteq> Unset) \<or> (k = k_owner_email \<and> u_owner_email p \<noteq> Unset)
                  \<or> (k = k_due_date \<and> u_due_date p \<noteq> Unset)) ProjectUpdate_fields"
  by (simp add: model_dump_exclude_unset_def dump_field_fst ProjectUpdate_fields_def key_defs)

lemma model_dump_keys:
  "fst ` set (model_dump_exclude_unset p) \<subseteq> set ProjectUpdate_fields"
proof -
  have "set (map fst (model_dump_exclude_unset p)) \<subseteq> set ProjectUpdate_fields"
    unfolding model_dump_fst by (rule filter_is_subset)
  then show ?thesis by simp
qed

lemma model_dump_distinct: "distinct (map fst (model_dump_exclude_unset p))"
  unfolding model_dump_fst using ProjectUpdate_fields_distinct by (rule distinct_filter)

lemma updated_at_not_field: "k_updated_at \<notin> set ProjectUpdate_fields"
  by (simp add: ProjectUpdate_fields_def key_defs)

lemma id_not_field: "k__id \<notin> set ProjectUpdate_fields"
  by (simp add: ProjectUpdate_fields_def key_defs)

lemma patch_append:
  "AList.update k_updated_at v (model_dump_exclude_unset p)
     = model_dump_exclude_unset p @ [(k_updated_at, v)]"
  using model_dump_keys [of p] updated_at_not_field
  by (intro update_new_key) auto


section \<open>Facts about the store operations\<close>

lemma find_one_Cons:
  "find_one (d # ds) oid = (if matches_id oid d then Some d else find_one ds oid)"
  by (simp add: find_one_def)

lemma find_one_Nil: "find_one [] oid = None"
  by (simp add: find_one_def)

lemma find_one_split:
  "\<forall>x\<in>set pre. \<not> matches_id oid x \<Longrightarrow> matches_id oid doc
     \<Longrightarrow> find_one (pre @ doc # post) oid = Some doc"
  by (induction pre) (simp_all add: find_one_Cons)

lemma find_one_and_update_hit:
  "find_one docs oid = Some doc \<Longrightarrow>
     \<exists>pre post. docs = pre @ doc # post \<and> (\<forall>x\<in>set pre. \<not> matches_id oid x)
       \<and> matches_id oid doc
       \<and> find_one_and_update docs oid ch
           = (Some (set_fields ch doc), pre @ set_fields ch doc # post)"
proof (induction docs)
  case Nil
  then show ?case by (simp add: find_one_Nil)
next
  case (Cons d ds)
  show ?case
  proof (cases "matches_id oid d")
    case True
    with Cons.prems have "doc = d" by (simp add: find_one_Cons)
    with True have "d # ds = [] @ doc # ds \<and> (\<forall>x\<in>set []. \<not> matches_id oid x)
        \<and> matches_id oid doc
        \<and> find_one_and_update (d # ds) oid ch
            = (Some (set_fields ch doc), [] @ set_fields ch doc # ds)"
      by simp
    then show ?thesis by blast
  next
    case False
    with Cons.prems have "find_one ds oid = Some doc" by (simp add: find_one_Cons)
    from Cons.IH [OF this] obtain pre post where
      h: "ds = pre @ doc # post" "\<forall>x\<in>set pre. \<not> matches_id oid x" "matches_id oid doc"
         "find_one_and_update ds oid ch = (Some (set_fields ch doc), pre @ set_fields ch doc # post)"
      by blast
    with False have "d # ds = (d # pre) @ doc # post
        \<and> (\<forall>x\<in>set (d # pre). \<not> matches_id oid x)
        \<and> matches_id oid doc
        \<and> find_one_and_update (d # ds) oid ch
            = (Some (set_fields ch doc), (d # pre) @ set_fields ch doc # post)"
      by simp
    then show ?thesis by blast
  qed
qed

lemma find_one_and_update_miss:
  "find_one docs oid = None \<Longrightarrow> find_one_and_update docs oid ch = (None, docs)"
  by (induction docs) (simp_all add: find_one_Cons split: if_splits)

lemma delete_one_miss:
  "find_one docs oid = None \<Longrightarrow> delete_one docs oid = (0, docs)"
  by (induction docs) (simp_all add: find_one_Cons split: if_splits)

lemma fst_delete_one_Cons:
  "fst (delete_one (d # ds) oid) = (if matches_id oid d then 1 else fst (delete_one ds oid))"
  by (simp add: case_prod_unfold)

lemma snd_delete_one_Cons:
  "snd (delete_one (d # ds) oid) = (if matches_id oid d then ds else d # snd (delete_one ds oid))"
  by (simp add: case_prod_unfold)

lemma delete_one_hit:
  "find_one docs oid = Some doc \<Longrightarrow> fst (delete_one docs oid) = 1"
  by (induction docs) (simp_all add: find_one_Cons find_one_Nil fst_delete_one_Cons del: delete_one.simps split: if_splits)

lemma delete_one_removes:
  "length (filter (matches_id oid) docs) \<le> 1 \<Longrightarrow> find_one (snd (delete_one docs oid)) oid = None"
proof (induction docs)
  case Nil
  then show ?case by (simp add: find_one_Nil)
next
  case (Cons d ds)
  show ?case
  proof (cases "matches_id oid d")
    case True
    with Cons.prems have "filter (matches_id oid) ds = []" by simp
    then have "find_one ds oid = None"
      by (simp add: find_one_def find_None_iff filter_empty_conv)
    with True show ?thesis by (simp add: snd_delete_one_Cons del: delete_one.simps)
  next
    case False
    with Cons.prems Cons.IH have "find_one (snd (delete_one ds oid)) oid = None" by simp
    with False show ?thesis by (simp add: find_one_Cons snd_delete_one_Cons del: delete_one.simps)
  qed
qed

lemma matches_id_set_fields:
  "k__id \<notin> fst ` set ch \<Longrightarrow> matches_id oid (set_fields ch doc) = matches_id oid doc"
  by (simp add: matches_id_def set_fields_other)

lemma set_fields_nonempty: "ch \<noteq> [] \<Longrightarrow> set_fields ch doc \<noteq> []"
proof (induction ch arbitrary: doc)
  case Nil
  then show ?case by simp
next
  case (Cons x ch)
  obtain k v where x: "x = (k, v)" by (cases x)
  have u: "AList.update k v doc \<noteq> []" by (cases doc) auto
  show ?case
  proof (cases "ch = []")
    case True
    with x u show ?thesis by (simp add: set_fields_def)
  next
    case False
    from Cons.IH [OF False, of "AList.update k v doc"] x show ?thesis
      by (simp add: set_fields_Cons)
  qed
qed

section \<open>Partial update\<close>

lemma patch_no_id: "k__id \<notin> fst ` set (model_dump_exclude_unset p @ [(k_updated_at, v)])"
  using model_dump_keys [of p] id_not_field by (auto simp: key_defs)

lemma update_project_found:
  assumes existing: "find_one (colls d COLL) (ObjectId project_id) = Some doc"
    and valid: "is_valid project_id"
    and nonempty: "model_dump_exclude_unset payload \<noteq> []"
  shows "\<exists>pre post.
      colls d COLL = pre @ doc # post
    \<and> (\<forall>x\<in>set pre. \<not> matches_id (ObjectId project_id) x)
    \<and> matches_id (ObjectId project_id) doc
    \<and> update_project (Some d) clock project_id payload
        = (ProjectOut_new (serialize_doc (Some (set_fields
              (model_dump_exclude_unset payload @ [(k_updated_at, PDatetime (now_utc clock))]) doc))),
           Some (d\<lparr>colls := (colls d)(COLL := pre @ set_fields
              (model_dump_exclude_unset payload @ [(k_updated_at, PDatetime (now_utc clock))]) doc # post),
                   calls := calls d @ [FindOneAndUpdate COLL (ObjectId project_id)
              (model_dump_exclude_unset payload @ [(k_updated_at, PDatetime (now_utc clock))])]\<rparr>))"
proof -
  let ?ch = "model_dump_exclude_unset payload @ [(k_updated_at, PDatetime (now_utc clock))]"
  from find_one_and_update_hit [OF existing, of ?ch] obtain pre post where
    h: "colls d COLL = pre @ doc # post" "\<forall>x\<in>set pre. \<not> matches_id (ObjectId project_id) x"
       "matches_id (ObjectId project_id) doc"
       "find_one_and_update (colls d COLL) (ObjectId project_id) ?ch
          = (Some (set_fields ?ch doc), pre @ set_fields ?ch doc # post)"
    by blast
  have ne: "set_fields ?ch doc \<noteq> []" by (rule set_fields_nonempty) simp
  from valid nonempty h(4) ne
  have "update_project (Some d) clock project_id payload
        = (ProjectOut_new (serialize_doc (Some (set_fields ?ch doc))),
           Some (d\<lparr>colls := (colls d)(COLL := pre @ set_fields ?ch doc # post),
                   calls := calls d @ [FindOneAndUpdate COLL (ObjectId project_id) ?ch]\<rparr>))"
    by (simp add: update_project_def patch_append Let_def)
  with h(1,2,3) show ?thesis by blast
qed

lemma update_project_missing:
  assumes missing: "find_one (colls d COLL) (ObjectId project_id) = None"
    and valid: "is_valid project_id"
    and nonempty: "model_dump_exclude_unset payload \<noteq> []"
  shows "update_project (Some d) clock project_id payload
        = (Inl (HTTPException 404 (ascii ''Project not found'')),
           Some (d\<lparr>colls := (colls d)(COLL := colls d COLL),
                   calls := calls d @ [FindOneAndUpdate COLL (ObjectId project_id)
              (model_dump_exclude_unset payload @ [(k_updated_at, PDatetime (now_utc clock))])]\<rparr>))"
  using valid nonempty find_one_and_update_miss [OF missing]
  by (simp add: update_project_def patch_append Let_def)

text \<open>
  C1. Updating an existing project with a body in which at least one field is set changes,
  in the stored document, the fields of the patch and \<open>updated_at\<close> only: every field
  of the patch gets its new value, \<open>updated_at\<close> becomes the time the handler read, in
  UTC, and every other field keeps its value. The other documents of the collection, before
  and after it, stay as they were, and the response is built from the updated document.
\<close>

theorem update_changes_only_patch_fields:
  assumes existing: "find_one (colls d COLL) (ObjectId project_id) = Some doc"
    and valid: "is_valid project_id"
    and nonempty: "model_dump_exclude_unset payload \<noteq> []"
  shows "\<exists>pre post doc'.
      colls d COLL = pre @ doc # post
    \<and> find_one (pre @ doc' # post) (ObjectId project_id) = Some doc'
    \<and> snd (update_project (Some d) clock project_id payload)
        = Some (d\<lparr>colls := (colls d)(COLL := pre @ doc' # post),
                   calls := calls d @ [FindOneAndUpdate COLL (ObjectId project_id)
              (model_dump_exclude_unset payload @ [(k_updated_at, PDatetime (now_utc clock))])]\<rparr>)
    \<and> fst (update_project (Some d) clock project_id payload)
        = ProjectOut_new (serialize_doc (Some doc'))
    \<and> (\<forall>k v. (k, v) \<in> set (model_dump_exclude_unset payload) \<longrightarrow> map_of doc' k = Some v)
    \<and> map_of doc' k_updated_at = Some (PDatetime (now_utc clock))
    \<and> (\<forall>k. k \<notin> fst ` set (model_dump_exclude_unset payload) \<longrightarrow> k \<noteq> k_updated_at
           \<longrightarrow> map_of doc' k = map_of doc k)"
proof -
  let ?ch = "model_dump_exclude_unset payload @ [(k_updated_at, PDatetime (now_utc clock))]"
  let ?doc' = "set_fields ?ch doc"
  from update_project_found [OF existing valid nonempty, of clock] obtain pre post where
    h: "colls d COLL = pre @ doc # post" "\<forall>x\<in>set pre. \<not> matches_id (ObjectId project_id) x"
       "matches_id (ObjectId project_id) doc"
       "update_project (Some d) clock project_id payload
        = (ProjectOut_new (serialize_doc (Some ?doc')),
           Some (d\<lparr>colls := (colls d)(COLL := pre @ ?doc' # post),
                   calls := calls d @ [FindOneAndUpdate COLL (ObjectId project_id) ?ch]\<rparr>))"
    by blast
  have dist: "distinct (map fst ?ch)"
    using model_dump_distinct [of payload] model_dump_keys [of payload] updated_at_not_field
    by auto
  have m: "matches_id (ObjectId project_id) ?doc'"
    using h(3) patch_no_id by (simp add: matches_id_set_fields)
  have f: "find_one (pre @ ?doc' # post) (ObjectId project_id) = Some ?doc'"
    using h(2) m by (rule find_one_split)
  have a: "\<forall>k v. (k, v) \<in> set (model_dump_exclude_unset payload) \<longrightarrow> map_of ?doc' k = Some v"
    using set_fields_member [OF dist, of _ _ doc] by simp
  have b: "map_of ?doc' k_updated_at = Some (PDatetime (now_utc clock))"
    using set_fields_member [OF dist, of k_updated_at "PDatetime (now_utc clock)" doc] by simp
  have c: "\<forall>k. k \<notin> fst ` set (model_dump_exclude_unset payload) \<longrightarrow> k \<noteq> k_updated_at
           \<longrightarrow> map_of ?doc' k = map_of doc k"
    using set_fields_other [of _ ?ch doc] by simp
  from h(1) f h(4) a b c show ?thesis
    by (intro exI [of _ pre] exI [of _ post] exI [of _ ?doc']) simp
qed


lemma example_doc_found:
  "find_one (colls example_db COLL) (ObjectId example_id) = Some example_doc"
  by (simp add: find_one_def example_db_def matches_id_def example_doc_def)

lemma status_completed_nonempty: "model_dump_exclude_unset status_completed \<noteq> []"
  by (simp add: model_dump_exclude_unset_def status_completed_def dump_field_def)

lemma example_update_response:
  "fst (update_project (Some example_db) example_clock example_id status_completed)
     = Inr \<lparr>name = ascii ''Launch'', description = None, status = ascii ''completed'',
            owner_email = None, due_date = None,
            id' = ascii ''507f1f77bcf86cd799439011'',
            created_at = Some (ascii ''2024-03-09T01:02:03''),
            updated_at = Some (ascii ''2024-03-09T01:02:03+00:00'')\<rparr>"
  by code_simp

theorem update_changes_only_patch_fields_witness:
  "find_one (colls example_db COLL) (ObjectId example_id) = Some example_doc
   \<and> is_valid example_id
   \<and> model_dump_exclude_unset status_completed \<noteq> []
   \<and> (\<exists>pre post doc'.
      colls example_db COLL = pre @ example_doc # post
    \<and> find_one (pre @ doc' # post) (ObjectId example_id) = Some doc'
    \<and> snd (update_project (Some example_db) example_clock example_id status_completed)
        = Some (example_db\<lparr>colls := (colls example_db)(COLL := pre @ doc' # post),
                   calls := calls example_db @ [FindOneAndUpdate COLL (ObjectId example_id)
              (model_dump_exclude_unset status_completed
                 @ [(k_updated_at, PDatetime (now_utc example_clock))])]\<rparr>)
    \<and> fst (update_project (Some example_db) example_clock example_id status_completed)
        = ProjectOut_new (serialize_doc (Some doc'))
    \<and> (\<forall>k v. (k, v) \<in> set (model_dump_exclude_unset status_completed) \<longrightarrow> map_of doc' k = Some v)
    \<and> map_of doc' k_updated_at = Some (PDatetime (now_utc example_clock))
    \<and> (\<forall>k. k \<notin> fst ` set (model_dump_exclude_unset status_completed) \<longrightarrow> k \<noteq> k_updated_at
           \<longrightarrow> map_of doc' k = map_of example_doc k))"
  by (intro conjI example_doc_found example_id_valid status_completed_nonempty
        update_changes_only_patch_fields
          [OF example_doc_found example_id_valid status_completed_nonempty, of example_clock])

section \<open>The patch of an update\<close>

lemma optional_str_field_dump:
  assumes "optional_str_field lo hi x = Some f"
  shows "map_of (dump_field k f) k' = (if k' = k then x else None)"
proof (cases x)
  case None
  with assms show ?thesis by (simp add: optional_str_field_def dump_field_def)
next
  case (Some v)
  with assms show ?thesis
    by (cases v) (auto simp: optional_str_field_def dump_field_def check_str_def split: if_splits)
qed

lemma ProjectUpdate_validate_fields:
  assumes "ProjectUpdate_validate body = Some payload"
  shows "optional_str_field (Some 1) (Some 120) (map_of body k_name) = Some (u_name payload)"
    and "optional_str_field None (Some 2000) (map_of body k_description) = Some (u_description payload)"
    and "optional_str_field None None (map_of body k_status) = Some (u_status payload)"
    and "optional_str_field None None (map_of body k_owner_email) = Some (u_owner_email payload)"
    and "optional_str_field None None (map_of body k_due_date) = Some (u_due_date payload)"
  using assms by (auto simp: ProjectUpdate_validate_def bind_eq_Some_conv)

lemma model_dump_lookup:
  assumes "ProjectUpdate_validate body = Some payload"
  shows "map_of (model_dump_exclude_unset payload) k
           = (if k \<in> set ProjectUpdate_fields then map_of body k else None)"
  using ProjectUpdate_validate_fields [OF assms]
  by (simp add: model_dump_exclude_unset_def map_add_def optional_str_field_dump
        ProjectUpdate_fields_def key_defs split: option.splits)

lemma update_project_empty:
  "is_valid project_id \<Longrightarrow> model_dump_exclude_unset payload = [] \<Longrightarrow>
     update_project db clock project_id payload
       = (Inl (HTTPException 400 (ascii ''No changes provided'')), db)"
  by (simp add: update_project_def)


lemma ProjectOut_new_not_400: "status_code (ProjectOut_new x) \<noteq> 400"
proof (cases x)
  case None
  then show ?thesis by (simp add: ProjectOut_new_def)
next
  case (Some d)
  then show ?thesis by (cases "ProjectOut_validate d") (simp_all add: ProjectOut_new_def)
qed

lemma update_project_nonempty_not_400:
  assumes valid: "is_valid project_id" and nonempty: "model_dump_exclude_unset payload \<noteq> []"
  shows "status_code (fst (update_project db clock project_id payload)) \<noteq> 400"
proof (cases db)
  case None
  with valid nonempty show ?thesis by (simp add: update_project_def Let_def)
next
  case (Some d)
  show ?thesis
  proof (cases "find_one (colls d COLL) (ObjectId project_id)")
    case None
    from update_project_missing [OF None valid nonempty, of clock] Some show ?thesis by simp
  next
    case (Some doc)
    from update_project_found [OF Some valid nonempty, of clock] \<open>db = Some d\<close>
    show ?thesis by (auto simp: ProjectOut_new_not_400)
  qed
qed

lemma update_project_logs_patch:
  assumes valid: "is_valid project_id" and nonempty: "model_dump_exclude_unset payload \<noteq> []"
  shows "\<exists>res d'. update_project (Some d) clock project_id payload = (res, Some d')
           \<and> calls d' = calls d @ [FindOneAndUpdate COLL (ObjectId project_id)
                (model_dump_exclude_unset payload @ [(k_updated_at, PDatetime (now_utc clock))])]"
proof (cases "find_one (colls d COLL) (ObjectId project_id)")
  case None
  from update_project_missing [OF None valid nonempty, of clock] show ?thesis by simp
next
  case (Some doc)
  from update_project_found [OF Some valid nonempty, of clock] show ?thesis by auto
qed

text \<open>
  C3. The patch of an update is made of exactly the fields that the request body sets
  (a field the body does not mention is not in the patch, rather than being \<open>null\<close>
  there), and the handler adds \<open>updated_at\<close>, the time it reads in UTC, to every patch
  it sends to the store. When the body sets no field, the request is answered 400 and the
  store is left exactly as it was.
\<close>

theorem patch_is_present_fields_and_timestamp:
  assumes "ProjectUpdate_validate body = Some payload" and "is_valid project_id"
  shows "(\<forall>k. map_of (model_dump_exclude_unset payload) k
               = (if k \<in> set ProjectUpdate_fields then map_of body k else None))
    \<and> put_api_projects db clock project_id body = update_project db clock project_id payload
    \<and> (model_dump_exclude_unset payload = [] \<longrightarrow>
          update_project db clock project_id payload
            = (Inl (HTTPException 400 (ascii ''No changes provided'')), db))
    \<and> (model_dump_exclude_unset payload \<noteq> [] \<longrightarrow>
          (\<exists>res d'. update_project (Some d) clock project_id payload = (res, Some d')
             \<and> calls d' = calls d @ [FindOneAndUpdate COLL (ObjectId project_id)
                  (model_dump_exclude_unset payload
                     @ [(k_updated_at, PDatetime (now_utc clock))])]))"
proof (intro conjI allI impI)
  fix k
  show "map_of (model_dump_exclude_unset payload) k
          = (if k \<in> set ProjectUpdate_fields then map_of body k else None)"
    using assms(1) by (rule model_dump_lookup)
next
  show "put_api_projects db clock project_id body = update_project db clock project_id payload"
    using assms(1) by (simp add: put_api_projects_def)
next
  assume "model_dump_exclude_unset payload = []"
  with assms(2) show "update_project db clock project_id payload
            = (Inl (HTTPException 400 (ascii ''No changes provided'')), db)"
    by (rule update_project_empty)
next
  assume "model_dump_exclude_unset payload \<noteq> []"
  with assms(2) show "\<exists>res d'. update_project (Some d) clock project_id payload = (res, Some d')
             \<and> calls d' = calls d @ [FindOneAndUpdate COLL (ObjectId project_id)
                  (model_dump_exclude_unset payload
                     @ [(k_updated_at, PDatetime (now_utc clock))])]"
    by (rule update_project_logs_patch)
qed

lemma status_body_valid: "ProjectUpdate_validate status_body = Some status_completed"
  by (simp add: ProjectUpdate_validate_def status_body_def status_completed_def
        optional_str_field_def check_str_def key_defs)

lemma empty_body_valid: "ProjectUpdate_validate [] = Some no_fields"
  by (simp add: ProjectUpdate_validate_def no_fields_def optional_str_field_def)

lemma null_name_body_valid: "ProjectUpdate_validate null_name_body = Some null_name"
  by (simp add: ProjectUpdate_validate_def null_name_body_def null_name_def
        optional_str_field_def check_str_def key_defs)

lemma no_fields_empty: "model_dump_exclude_unset no_fields = []"
  by (simp add: model_dump_exclude_unset_def no_fields_def dump_field_def)


theorem patch_is_present_fields_and_timestamp_witness:
  "ProjectUpdate_validate status_body = Some status_completed
   \<and> ProjectUpdate_validate [] = Some no_fields
   \<and> is_valid example_id
   \<and> model_dump_exclude_unset status_completed = [(k_status, PStr (ascii ''completed''))]
   \<and> put_api_projects (Some example_db) example_clock example_id []
       = (Inl (HTTPException 400 (ascii ''No changes provided'')), Some example_db)
   \<and> (\<exists>res d'. put_api_projects (Some example_db) example_clock example_id status_body
                   = (res, Some d')
          \<and> calls d' = [FindOneAndUpdate COLL (ObjectId example_id)
                          [(k_status, PStr (ascii ''completed'')),
                           (k_updated_at, PDatetime (now_utc example_clock))]])"
proof -
  have d: "model_dump_exclude_unset status_completed = [(k_status, PStr (ascii ''completed''))]"
    by (simp add: model_dump_exclude_unset_def status_completed_def dump_field_def)
  have c: "calls example_db = []" by (simp add: example_db_def)
  note a = patch_is_present_fields_and_timestamp
             [OF status_body_valid example_id_valid, of "Some example_db" example_clock example_db]
  note b = patch_is_present_fields_and_timestamp
             [OF empty_body_valid example_id_valid, of "Some example_db" example_clock example_db]
  from a have "\<exists>res d'. put_api_projects (Some example_db) example_clock example_id status_body
                   = (res, Some d')
          \<and> calls d' = [FindOneAndUpdate COLL (ObjectId example_id)
                          [(k_status, PStr (ascii ''completed'')),
                           (k_updated_at, PDatetime (now_utc example_clock))]]"
    by (simp add: d c)
  moreover from b have "put_api_projects (Some example_db) example_clock example_id []
       = (Inl (HTTPException 400 (ascii ''No changes provided'')), Some example_db)"
    by (simp add: no_fields_empty)
  ultimately show ?thesis
    using status_body_valid empty_body_valid example_id_valid d by simp
qed

text \<open>
  C9. A field that the body sets to \<open>null\<close> is part of the patch: the request is not
  refused as an empty one (with a valid identifier the answer is not 400), the patch sent
  to the store holds the field with \<open>None\<close>, and the stored document of an existing
  project has \<open>None\<close> for it afterwards. The witness is the body \<open>{"name": null}\<close>.
\<close>

theorem explicit_null_is_written:
  assumes ok: "ProjectUpdate_validate body = Some payload"
    and field: "k \<in> set ProjectUpdate_fields"
    and null: "map_of body k = Some PNone"
  shows "(k, PNone) \<in> set (model_dump_exclude_unset payload)
    \<and> fst (update_project db clock project_id payload)
        \<noteq> Inl (HTTPException 400 (ascii ''No changes provided''))
    \<and> (is_valid project_id \<longrightarrow>
          status_code (fst (update_project db clock project_id payload)) \<noteq> 400)
    \<and> (is_valid project_id \<longrightarrow> find_one (colls d COLL) (ObjectId project_id) = Some doc \<longrightarrow>
          (\<exists>pre post doc'.
              colls d COLL = pre @ doc # post
            \<and> find_one (pre @ doc' # post) (ObjectId project_id) = Some doc'
            \<and> snd (update_project (Some d) clock project_id payload)
                = Some (d\<lparr>colls := (colls d)(COLL := pre @ doc' # post),
                          calls := calls d @ [FindOneAndUpdate COLL (ObjectId project_id)
                            (model_dump_exclude_unset payload
                               @ [(k_updated_at, PDatetime (now_utc clock))])]\<rparr>)
            \<and> map_of doc' k = Some PNone))"
proof -
  let ?ch = "model_dump_exclude_unset payload @ [(k_updated_at, PDatetime (now_utc clock))]"
  from model_dump_lookup [OF ok, of k] field null
  have "map_of (model_dump_exclude_unset payload) k = Some PNone" by simp
  then have mem: "(k, PNone) \<in> set (model_dump_exclude_unset payload)" by (rule map_of_SomeD)
  then have nonempty: "model_dump_exclude_unset payload \<noteq> []" by auto
  have s400: "is_valid project_id \<longrightarrow>
          status_code (fst (update_project db clock project_id payload)) \<noteq> 400"
    using nonempty by (simp add: update_project_nonempty_not_400)
  have msg: "fst (update_project db clock project_id payload)
        \<noteq> Inl (HTTPException 400 (ascii ''No changes provided''))"
  proof (cases "is_valid project_id")
    case True
    with s400 show ?thesis by auto
  next
    case False
    then show ?thesis by (simp add: update_project_def)
  qed
  have stored: "is_valid project_id \<longrightarrow> find_one (colls d COLL) (ObjectId project_id) = Some doc \<longrightarrow>
          (\<exists>pre post doc'.
              colls d COLL = pre @ doc # post
            \<and> find_one (pre @ doc' # post) (ObjectId project_id) = Some doc'
            \<and> snd (update_project (Some d) clock project_id payload)
                = Some (d\<lparr>colls := (colls d)(COLL := pre @ doc' # post),
                          calls := calls d @ [FindOneAndUpdate COLL (ObjectId project_id) ?ch]\<rparr>)
            \<and> map_of doc' k = Some PNone)"
  proof (intro impI)
    assume valid: "is_valid project_id"
      and existing: "find_one (colls d COLL) (ObjectId project_id) = Some doc"
    from update_project_found [OF existing valid nonempty, of clock] obtain pre post where
      h: "colls d COLL = pre @ doc # post" "\<forall>x\<in>set pre. \<not> matches_id (ObjectId project_id) x"
         "matches_id (ObjectId project_id) doc"
         "update_project (Some d) clock project_id payload
          = (ProjectOut_new (serialize_doc (Some (set_fields ?ch doc))),
             Some (d\<lparr>colls := (colls d)(COLL := pre @ set_fields ?ch doc # post),
                     calls := calls d @ [FindOneAndUpdate COLL (ObjectId project_id) ?ch]\<rparr>))"
      by blast
    have dist: "distinct (map fst ?ch)"
      using model_dump_distinct [of payload] model_dump_keys [of payload] updated_at_not_field
      by auto
    have m: "matches_id (ObjectId project_id) (set_fields ?ch doc)"
      using h(3) patch_no_id by (simp add: matches_id_set_fields)
    have f: "find_one (pre @ set_fields ?ch doc # post) (ObjectId project_id)
               = Some (set_fields ?ch doc)"
      using h(2) m by (rule find_one_split)
    have v: "map_of (set_fields ?ch doc) k = Some PNone"
      using set_fields_member [OF dist, of k PNone doc] mem by simp
    from h(1) f h(4) v show "\<exists>pre post doc'.
              colls d COLL = pre @ doc # post
            \<and> find_one (pre @ doc' # post) (ObjectId project_id) = Some doc'
            \<and> snd (update_project (Some d) clock project_id payload)
                = Some (d\<lparr>colls := (colls d)(COLL := pre @ doc' # post),
                          calls := calls d @ [FindOneAndUpdate COLL (ObjectId project_id) ?ch]\<rparr>)
            \<and> map_of doc' k = Some PNone"
      by (intro exI [of _ pre] exI [of _ post] exI [of _ "set_fields ?ch doc"]) simp
  qed
  from mem msg s400 stored show ?thesis by blast
qed

lemma name_is_field: "k_name \<in> set ProjectUpdate_fields"
  by (simp add: ProjectUpdate_fields_def)

lemma null_name_in_body: "map_of null_name_body k_name = Some PNone"
  by (simp add: null_name_body_def)

lemma null_name_response:
  "fst (update_project (Some example_db) example_clock example_id null_name) = Inl ValidationError"
  by code_simp

theorem explicit_null_is_written_witness:
  "ProjectUpdate_validate null_name_body = Some null_name
   \<and> k_name \<in> set ProjectUpdate_fields
   \<and> map_of null_name_body k_name = Some PNone
   \<and> is_valid example_id
   \<and> find_one (colls example_db COLL) (ObjectId example_id) = Some example_doc
   \<and> map_of example_doc k_name = Some (PStr (ascii ''Launch''))
   \<and> (k_name, PNone) \<in> set (model_dump_exclude_unset null_name)
   \<and> status_code (fst (update_project (Some example_db) example_clock example_id null_name)) = 500
   \<and> (\<exists>pre post doc'.
          colls example_db COLL = pre @ example_doc # post
        \<and> find_one (pre @ doc' # post) (ObjectId example_id) = Some doc'
        \<and> snd (update_project (Some example_db) example_clock example_id null_name)
            = Some (example_db\<lparr>colls := (colls example_db)(COLL := pre @ doc' # post),
                      calls := calls example_db @ [FindOneAndUpdate COLL (ObjectId example_id)
                        (model_dump_exclude_unset null_name
                           @ [(k_updated_at, PDatetime (now_utc example_clock))])]\<rparr>)
        \<and> map_of doc' k_name = Some PNone)"
proof -
  note t = explicit_null_is_written [OF null_name_body_valid name_is_field null_name_in_body,
             of "Some example_db" example_clock example_id example_db example_doc]
  have n: "map_of example_doc k_name = Some (PStr (ascii ''Launch''))"
    by (simp add: example_doc_def key_defs)
  have s: "status_code (fst (update_project (Some example_db) example_clock example_id null_name))
             = 500"
    by (simp add: null_name_response)
  from t example_id_valid example_doc_found null_name_body_valid name_is_field
    null_name_in_body n s
  show ?thesis by blast
qed

section \<open>Malformed identifiers\<close>














section \<open>Identifiers that are not in the store\<close>

lemma delete_project_run:
  "is_valid project_id \<Longrightarrow>
     delete_project (Some d) project_id
       = (if fst (delete_one (colls d COLL) (ObjectId project_id)) = 0
          then Inl (HTTPException 404 (ascii ''Project not found''))
          else Inr [(ascii ''ok'', PBool True)],
          Some (d\<lparr>colls := (colls d)(COLL := snd (delete_one (colls d COLL) (ObjectId project_id))),
                  calls := calls d @ [DeleteOne COLL (ObjectId project_id)]\<rparr>))"
  by (simp add: delete_project_def Let_def case_prod_unfold)

lemma delete_project_missing:
  assumes "is_valid project_id" and "find_one (colls d COLL) (ObjectId project_id) = None"
  shows "fst (delete_project (Some d) project_id)
           = Inl (HTTPException 404 (ascii ''Project not found''))"
  using assms(1) delete_one_miss [OF assms(2)] by (simp add: delete_project_run)

lemma delete_project_twice:
  assumes valid: "is_valid project_id"
    and unique: "length (filter (matches_id (ObjectId project_id)) (colls d COLL)) \<le> 1"
  shows "\<exists>d1. snd (delete_project (Some d) project_id) = Some d1
           \<and> fst (delete_project (Some d1) project_id)
               = Inl (HTTPException 404 (ascii ''Project not found''))"
proof -
  let ?d1 = "d\<lparr>colls := (colls d)(COLL := snd (delete_one (colls d COLL) (ObjectId project_id))),
                calls := calls d @ [DeleteOne COLL (ObjectId project_id)]\<rparr>"
  have s: "snd (delete_project (Some d) project_id) = Some ?d1"
    using valid by (simp add: delete_project_run)
  have "find_one (colls ?d1 COLL) (ObjectId project_id) = None"
    using delete_one_removes [OF unique] by simp
  with valid have "fst (delete_project (Some ?d1) project_id)
               = Inl (HTTPException 404 (ascii ''Project not found''))"
    by (rule delete_project_missing)
  with s show ?thesis by blast
qed

text \<open>
  C4, as the code has it. For a well-formed identifier that matches no document of the
  store, the delete handler answers 404; the update handler answers 404 when the body sets
  at least one field, and 400 when it sets none, since the empty patch is refused before
  the store is asked. Deleting the same identifier a second time answers 404, the store
  holding at most one document for an identifier.
\<close>

theorem missing_id_is_404:
  assumes valid: "is_valid project_id"
  shows "(find_one (colls d COLL) (ObjectId project_id) = None \<longrightarrow>
            fst (delete_project (Some d) project_id)
              = Inl (HTTPException 404 (ascii ''Project not found''))
          \<and> (model_dump_exclude_unset payload \<noteq> [] \<longrightarrow>
                fst (update_project (Some d) clock project_id payload)
                  = Inl (HTTPException 404 (ascii ''Project not found'')))
          \<and> (model_dump_exclude_unset payload = [] \<longrightarrow>
                fst (update_project (Some d) clock project_id payload)
                  = Inl (HTTPException 400 (ascii ''No changes provided''))))
    \<and> (length (filter (matches_id (ObjectId project_id)) (colls d COLL)) \<le> 1 \<longrightarrow>
          (\<exists>d1. snd (delete_project (Some d) project_id) = Some d1
             \<and> fst (delete_project (Some d1) project_id)
                 = Inl (HTTPException 404 (ascii ''Project not found''))))"
proof (intro conjI impI)
  assume "find_one (colls d COLL) (ObjectId project_id) = None"
  with valid show "fst (delete_project (Some d) project_id)
              = Inl (HTTPException 404 (ascii ''Project not found''))"
    by (rule delete_project_missing)
next
  assume m: "find_one (colls d COLL) (ObjectId project_id) = None"
    and n: "model_dump_exclude_unset payload \<noteq> []"
  from update_project_missing [OF m valid n, of clock]
  show "fst (update_project (Some d) clock project_id payload)
                  = Inl (HTTPException 404 (ascii ''Project not found''))"
    by simp
next
  assume "model_dump_exclude_unset payload = []"
  with valid show "fst (update_project (Some d) clock project_id payload)
                  = Inl (HTTPException 400 (ascii ''No changes provided''))"
    by (simp add: update_project_empty)
next
  assume "length (filter (matches_id (ObjectId project_id)) (colls d COLL)) \<le> 1"
  with valid show "\<exists>d1. snd (delete_project (Some d) project_id) = Some d1
             \<and> fst (delete_project (Some d1) project_id)
                 = Inl (HTTPException 404 (ascii ''Project not found''))"
    by (rule delete_project_twice)
qed

lemma example_missing: "find_one (colls example_db COLL) (ObjectId missing_id) = None"
  by (simp add: find_one_def example_db_def matches_id_def example_doc_def ObjectId_def
        example_id_def missing_id_def ascii_def is_space_def hex_value_def)

lemma example_unique:
  "length (filter (matches_id (ObjectId example_id)) (colls example_db COLL)) \<le> 1"
  by (simp add: example_db_def)

lemma example_first_delete:
  "fst (delete_project (Some example_db) example_id) = Inr [(ascii ''ok'', PBool True)]"
  using example_id_valid delete_one_hit [OF example_doc_found]
  by (simp add: delete_project_run)

text \<open>
  The claim as it was written, 404 from the update handler for every well-formed identifier
  that is not in the store, fails for a body that sets no field: the answer is 400.
\<close>

theorem update_missing_id_empty_body_counterexample:
  "is_valid missing_id
   \<and> find_one (colls example_db COLL) (ObjectId missing_id) = None
   \<and> fst (update_project (Some example_db) example_clock missing_id no_fields)
       = Inl (HTTPException 400 (ascii ''No changes provided''))
   \<and> status_code (fst (update_project (Some example_db) example_clock missing_id no_fields))
       \<noteq> 404"
  using missing_id_valid example_missing no_fields_empty
  by (simp add: update_project_empty)

theorem missing_id_is_404_witness:
  "is_valid missing_id
   \<and> find_one (colls example_db COLL) (ObjectId missing_id) = None
   \<and> model_dump_exclude_unset status_completed \<noteq> []
   \<and> fst (delete_project (Some example_db) missing_id)
       = Inl (HTTPException 404 (ascii ''Project not found''))
   \<and> fst (update_project (Some example_db) example_clock missing_id status_completed)
       = Inl (HTTPException 404 (ascii ''Project not found''))
   \<and> is_valid example_id
   \<and> length (filter (matches_id (ObjectId example_id)) (colls example_db COLL)) \<le> 1
   \<and> fst (delete_project (Some example_db) example_id) = Inr [(ascii ''ok'', PBool True)]
   \<and> (\<exists>d1. snd (delete_project (Some example_db) example_id) = Some d1
         \<and> fst (delete_project (Some d1) example_id)
             = Inl (HTTPException 404 (ascii ''Project not found'')))"
  using missing_id_is_404 [OF missing_id_valid, of example_db status_completed example_clock]
    missing_id_is_404 [OF example_id_valid, of example_db status_completed example_clock]
    missing_id_valid example_missing status_completed_nonempty example_id_valid
    example_unique example_first_delete
  by blast

section \<open>Serialization\<close>

lemma isoformat_items_lookup:
  "distinct (map fst items) \<Longrightarrow>
     map_of (isoformat_items items d) k
       = (case map_of items k of
            Some (PDatetime dt) \<Rightarrow> Some (PStr (isoformat dt))
          | _ \<Rightarrow> map_of d k)"
proof (induction items arbitrary: d)
  case Nil
  then show ?case by simp
next
  case (Cons x items)
  obtain k' v' where x: "x = (k', v')" by (cases x)
  from Cons.prems x have fresh: "map_of items k' = None" and dist: "distinct (map fst items)"
    by (auto simp: map_of_eq_None_iff)
  note IH = Cons.IH [OF dist]
  show ?case
  proof (cases "k = k'")
    case True
    with fresh x IH show ?thesis by (cases v') (simp_all add: update_conv')
  next
    case False
    define d' where "d' = (if has_isoformat v'
        then (case v' of PDatetime dt \<Rightarrow> AList.update k' (PStr (isoformat dt)) d | _ \<Rightarrow> d)
        else d)"
    have e: "map_of d' k = map_of d k"
      using False by (cases v') (simp_all add: d'_def update_conv')
    have "map_of (isoformat_items (x # items) d) k = map_of (isoformat_items items d') k"
      using x by (simp add: d'_def)
    also have "\<dots> = (case map_of items k of
            Some (PDatetime dt) \<Rightarrow> Some (PStr (isoformat dt))
          | _ \<Rightarrow> map_of d' k)"
      by (rule IH)
    also have "\<dots> = (case map_of items k of
            Some (PDatetime dt) \<Rightarrow> Some (PStr (isoformat dt))
          | _ \<Rightarrow> map_of d k)"
      by (simp only: e)
    also have "map_of items k = map_of (x # items) k"
      using False x by simp
    finally show ?thesis .
  qed
qed

lemma serialize_doc_nonempty:
  "d0 \<noteq> [] \<Longrightarrow>
     serialize_doc (Some d0)
       = Some (let popped = (case map_of d0 k__id of None \<Rightarrow> PNone | Some v \<Rightarrow> v);
                   d1 = AList.delete k__id d0;
                   d2 = (if popped \<noteq> PNone then AList.update k_id (PStr (str popped)) d1 else d1)
               in isoformat_items d2 d2)"
  by (simp add: serialize_doc_def Let_def)


lemma serialize_doc_lookup:
  assumes dist: "distinct (map fst d0)" and ne: "d0 \<noteq> []"
  shows "\<exists>out. serialize_doc (Some d0) = Some out
     \<and> (\<forall>k. map_of out k =
          (let popped = (case map_of d0 k__id of None \<Rightarrow> PNone | Some v \<Rightarrow> v);
               before = (if k = k_id \<and> popped \<noteq> PNone then Some (PStr (str popped))
                         else if k = k__id then None else map_of d0 k)
           in case before of Some (PDatetime dt) \<Rightarrow> Some (PStr (isoformat dt)) | _ \<Rightarrow> before))"
proof -
  let ?popped = "case map_of d0 k__id of None \<Rightarrow> PNone | Some v \<Rightarrow> v"
  let ?d1 = "AList.delete k__id d0"
  let ?d2 = "if ?popped \<noteq> PNone then AList.update k_id (PStr (str ?popped)) ?d1 else ?d1"
  have d1: "distinct (map fst ?d1)" using dist by (rule distinct_delete)
  have d2: "distinct (map fst ?d2)" using d1 by (simp add: distinct_update)
  have l2: "map_of ?d2 k = (if k = k_id \<and> ?popped \<noteq> PNone then Some (PStr (str ?popped))
                         else if k = k__id then None else map_of d0 k)" for k
    by (simp add: update_conv' delete_conv')
  have "serialize_doc (Some d0) = Some (isoformat_items ?d2 ?d2)"
    using ne by (simp add: serialize_doc_nonempty Let_def)
  moreover have "map_of (isoformat_items ?d2 ?d2) k =
          (let popped = ?popped;
               before = (if k = k_id \<and> popped \<noteq> PNone then Some (PStr (str popped))
                         else if k = k__id then None else map_of d0 k)
           in case before of Some (PDatetime dt) \<Rightarrow> Some (PStr (isoformat dt)) | _ \<Rightarrow> before)" for k
    unfolding isoformat_items_lookup [OF d2] Let_def l2 ..
  ultimately show ?thesis by blast
qed





lemma example_serialized:
  "serialize_doc (Some example_doc)
     = Some [(k_name, PStr (ascii ''Launch'')),
             (k_description, PNone),
             (k_status, PStr (ascii ''active'')),
             (k_owner_email, PNone),
             (k_due_date, PNone),
             (k_created_at, PStr (ascii ''2024-03-09T01:02:03'')),
             (k_id, PStr (ascii ''507f1f77bcf86cd799439011''))]"
  by code_simp


section \<open>Creating a project\<close>

lemma required_str_SomeD:
  assumes "required_str lo hi x = Some s"
  shows "x = Some (PStr s)"
    and "(case lo of None \<Rightarrow> True | Some l \<Rightarrow> l \<le> length s)"
    and "(case hi of None \<Rightarrow> True | Some h \<Rightarrow> length s \<le> h)"
proof -
  from assms obtain v where x: "x = Some v" and c: "check_str lo hi v = Some s"
    by (cases x) (simp_all add: required_str_def)
  from c have "v = PStr s \<and> (case lo of None \<Rightarrow> True | Some l \<Rightarrow> l \<le> length s)
      \<and> (case hi of None \<Rightarrow> True | Some h \<Rightarrow> length s \<le> h)"
    by (cases v) (auto simp: check_str_def split: if_splits)
  with x show "x = Some (PStr s)"
    and "(case lo of None \<Rightarrow> True | Some l \<Rightarrow> l \<le> length s)"
    and "(case hi of None \<Rightarrow> True | Some h \<Rightarrow> length s \<le> h)"
    by simp_all
qed

lemma optional_str_SomeD:
  assumes "optional_str lo hi x = Some (Some s)"
  shows "x = Some (PStr s)"
    and "(case hi of None \<Rightarrow> True | Some h \<Rightarrow> length s \<le> h)"
proof -
  from assms obtain v where x: "x = Some v"
    by (cases x) (simp_all add: optional_str_def)
  with assms have "v = PStr s \<and> (case hi of None \<Rightarrow> True | Some h \<Rightarrow> length s \<le> h)"
    by (cases v) (auto simp: optional_str_def check_str_def split: if_splits)
  with x show "x = Some (PStr s)" and "(case hi of None \<Rightarrow> True | Some h \<Rightarrow> length s \<le> h)"
    by simp_all
qed

lemma ProjectCreate_validate_fields:
  assumes "ProjectCreate_validate body = Some p"
  shows "required_str (Some 1) (Some 120) (map_of body k_name) = Some (name p)"
    and "optional_str None (Some 2000) (map_of body k_description) = Some (description p)"
    and "default_str (ascii ''active'') (map_of body k_status) = Some (status p)"
  using assms by (auto simp: ProjectCreate_validate_def bind_eq_Some_conv)

lemma bad_name_rejected:
  assumes "map_of body k_name = None
      \<or> (\<exists>s. map_of body k_name = Some (PStr s) \<and> (length s < 1 \<or> 120 < length s))"
  shows "ProjectCreate_validate body = None"
proof -
  from assms have "required_str (Some 1) (Some 120) (map_of body k_name) = None"
    by (auto simp: required_str_def check_str_def)
  then show ?thesis by (simp add: ProjectCreate_validate_def)
qed

lemma bad_description_rejected:
  assumes "map_of body k_description = Some (PStr s)" and "2000 < length s"
  shows "ProjectCreate_validate body = None"
proof -
  from assms have "optional_str None (Some 2000) (map_of body k_description) = None"
    by (simp add: optional_str_def check_str_def)
  then show ?thesis by (simp add: ProjectCreate_validate_def bind_eq_None_conv)
qed

lemma launch_body_valid: "ProjectCreate_validate launch_body = Some launch"
  by (simp add: ProjectCreate_validate_def launch_body_def launch_def required_str_def
        optional_str_def default_str_def check_str_def key_defs)

lemma launch_created:
  "fst (post_api_projects (create_document_spec (ObjectId missing_id) example_clock)
          (Some example_db) launch_body)
     = Inr \<lparr>name = ascii ''Launch'', description = None, status = ascii ''active'',
            owner_email = None, due_date = None,
            id' = ascii ''0123456789abcdefabcdef01'',
            created_at = Some (ascii ''2024-03-09T01:02:03+00:00''),
            updated_at = None\<rparr>"
  by code_simp

lemma hex_value_hexdigit: "n < 16 \<Longrightarrow> hex_value (hexdigit n) = Some n"
  by (simp add: hex_value_def hexdigit_def)

lemma hexdigit_not_space: "n < 16 \<Longrightarrow> \<not> is_space (hexdigit n)"
  by (simp add: is_space_def hexdigit_def)

lemma hexlify_Cons:
  "hexlify (b # bs) = hexdigit (b div 16) # hexdigit (b mod 16) # hexlify bs"
  by (simp add: hexlify_def)

lemma fromhex_hexlify: "\<forall>b\<in>set bs. b < 256 \<Longrightarrow> fromhex (hexlify bs) = Some bs"
proof (induction bs)
  case Nil
  then show ?case by (simp add: hexlify_def)
next
  case (Cons b bs)
  then have b: "b < 256" and IH: "fromhex (hexlify bs) = Some bs" by simp_all
  from b have h: "b div 16 < 16" and l: "b mod 16 < 16" by simp_all
  have v: "16 * (b div 16) + b mod 16 = b" by simp
  show ?case
    by (simp add: hexlify_Cons hexdigit_not_space [OF h] hex_value_hexdigit [OF h]
          hex_value_hexdigit [OF l] IH v)
qed

lemma length_hexlify: "length (hexlify bs) = 2 * length bs"
  by (induction bs) (simp_all add: hexlify_Cons, simp add: hexlify_def)

lemma generated_id_valid:
  "length bs = 12 \<Longrightarrow> \<forall>b\<in>set bs. b < 256 \<Longrightarrow>
     is_valid (hexlify bs) \<and> ObjectId (hexlify bs) = OID bs"
proof -
  assume n: "length bs = 12" and b: "\<forall>b\<in>set bs. b < 256"
  have l: "length (hexlify bs) = 24" using n by (simp add: length_hexlify)
  then have ne: "hexlify bs \<noteq> []" by auto
  from l ne fromhex_hexlify [OF b] show ?thesis
    by (simp add: is_valid_def ObjectId_def)
qed

lemma find_one_append:
  "find_one xs oid = None \<Longrightarrow> find_one (xs @ ys) oid = find_one ys oid"
  by (induction xs) (simp_all add: find_one_Cons split: if_splits)


lemma create_document_spec_eq:
  "create_document_spec new_oid clock (Some d) coll record
     = (Inr (str (PObjectId new_oid)),
        Some (d\<lparr>colls := (colls d)(coll := colls d coll @ [new_document new_oid clock record])\<rparr>))"
  by (simp add: create_document_spec_def new_document_def)

lemma new_document_distinct: "distinct (map fst (new_document oid clock p))"
  by (simp add: new_document_def model_dump_def key_defs)

lemma new_document_nonempty: "new_document oid clock p \<noteq> []"
  by (simp add: new_document_def)

lemma new_document_lookup:
  "map_of (new_document oid clock p) k__id = Some (PObjectId oid)"
  "map_of (new_document oid clock p) k_name = Some (PStr (name p))"
  "map_of (new_document oid clock p) k_description = Some (opt_val (description p))"
  "map_of (new_document oid clock p) k_status = Some (PStr (status p))"
  "map_of (new_document oid clock p) k_owner_email = Some (opt_val (owner_email p))"
  "map_of (new_document oid clock p) k_due_date = Some (opt_val (due_date p))"
  "map_of (new_document oid clock p) k_created_at = Some (PDatetime (now_utc clock))"
  "map_of (new_document oid clock p) k_updated_at = None"
  "map_of (new_document oid clock p) k_id = None"
  by (simp_all add: new_document_def model_dump_def key_defs opt_val_def)

lemma key_ineqs:
  "k_name \<noteq> k_id" "k_name \<noteq> k__id"
  "k_description \<noteq> k_id" "k_description \<noteq> k__id"
  "k_status \<noteq> k_id" "k_status \<noteq> k__id"
  "k_owner_email \<noteq> k_id" "k_owner_email \<noteq> k__id"
  "k_due_date \<noteq> k_id" "k_due_date \<noteq> k__id"
  "k_created_at \<noteq> k_id" "k_created_at \<noteq> k__id"
  "k_updated_at \<noteq> k_id" "k_updated_at \<noteq> k__id"
  by (simp_all add: key_defs)

lemma opt_val_render:
  "(case opt_val x of PDatetime dt \<Rightarrow> Some (PStr (isoformat dt)) | _ \<Rightarrow> Some (opt_val x))
     = Some (opt_val x)"
  by (cases x) (simp_all add: opt_val_def)

lemma new_document_serialized:
  "\<exists>out. serialize_doc (Some (new_document (OID bs) clock p)) = Some out
     \<and> map_of out k_name = Some (PStr (name p))
     \<and> map_of out k_description = Some (opt_val (description p))
     \<and> map_of out k_status = Some (PStr (status p))
     \<and> map_of out k_owner_email = Some (opt_val (owner_email p))
     \<and> map_of out k_due_date = Some (opt_val (due_date p))
     \<and> map_of out k_id = Some (PStr (hexlify bs))
     \<and> map_of out k_created_at = Some (PStr (isoformat (now_utc clock)))
     \<and> map_of out k_updated_at = None"
proof -
  from serialize_doc_lookup [OF new_document_distinct new_document_nonempty, of "OID bs" clock p]
  obtain out where out: "serialize_doc (Some (new_document (OID bs) clock p)) = Some out"
    and look: "\<And>k. map_of out k =
          (let before = (if k = k_id then Some (PStr (hexlify bs))
                         else if k = k__id then None else map_of (new_document (OID bs) clock p) k)
           in case before of Some (PDatetime dt) \<Rightarrow> Some (PStr (isoformat dt)) | _ \<Rightarrow> before)"
    by (auto simp: Let_def new_document_lookup)
  have "map_of out k_name = Some (PStr (name p))"
    by (simp add: look Let_def key_ineqs new_document_lookup)
  moreover have "map_of out k_description = Some (opt_val (description p))"
    by (simp add: look Let_def key_ineqs new_document_lookup opt_val_render)
  moreover have "map_of out k_status = Some (PStr (status p))"
    by (simp add: look Let_def key_ineqs new_document_lookup)
  moreover have "map_of out k_owner_email = Some (opt_val (owner_email p))"
    by (simp add: look Let_def key_ineqs new_document_lookup opt_val_render)
  moreover have "map_of out k_due_date = Some (opt_val (due_date p))"
    by (simp add: look Let_def key_ineqs new_document_lookup opt_val_render)
  moreover have "map_of out k_id = Some (PStr (hexlify bs))"
    by (simp add: look)
  moreover have "map_of out k_created_at = Some (PStr (isoformat (now_utc clock)))"
    by (simp add: look Let_def key_ineqs new_document_lookup)
  moreover have "map_of out k_updated_at = None"
    by (simp add: look Let_def key_ineqs new_document_lookup)
  ultimately show ?thesis using out by blast
qed


lemma optional_str_opt_val:
  "(case hi of None \<Rightarrow> True | Some h \<Rightarrow> \<forall>s. x = Some s \<longrightarrow> length s \<le> h) \<Longrightarrow>
     optional_str None hi (Some (opt_val x)) = Some x"
  by (cases x; cases hi) (simp_all add: optional_str_def opt_val_def check_str_def)

lemma ProjectCreate_validate_lookup:
  assumes b: "1 \<le> length (name p)" "length (name p) \<le> 120"
      "\<forall>s. description p = Some s \<longrightarrow> length s \<le> 2000"
    and l: "map_of d k_name = Some (PStr (name p))"
      "map_of d k_description = Some (opt_val (description p))"
      "map_of d k_status = Some (PStr (status p))"
      "map_of d k_owner_email = Some (opt_val (owner_email p))"
      "map_of d k_due_date = Some (opt_val (due_date p))"
  shows "ProjectCreate_validate d = Some p"
proof -
  have n: "required_str (Some 1) (Some 120) (Some (PStr (name p))) = Some (name p)"
    using b(1,2) by (simp add: required_str_def check_str_def)
  have de: "optional_str None (Some 2000) (Some (opt_val (description p))) = Some (description p)"
    using b(3) by (simp add: optional_str_opt_val)
  have st: "default_str (ascii ''active'') (Some (PStr (status p))) = Some (status p)"
    by (simp add: default_str_def check_str_def)
  have ow: "optional_str None None (Some (opt_val (owner_email p))) = Some (owner_email p)"
    by (simp add: optional_str_opt_val)
  have du: "optional_str None None (Some (opt_val (due_date p))) = Some (due_date p)"
    by (simp add: optional_str_opt_val)
  show ?thesis
    unfolding ProjectCreate_validate_def l n de st ow du by simp
qed

lemma ProjectCreate_validate_bounds:
  assumes "ProjectCreate_validate body = Some p"
  shows "1 \<le> length (name p)" "length (name p) \<le> 120"
    "\<forall>s. description p = Some s \<longrightarrow> length s \<le> 2000"
proof -
  note f = ProjectCreate_validate_fields [OF assms]
  from required_str_SomeD [OF f(1)] show "1 \<le> length (name p)" "length (name p) \<le> 120"
    by simp_all
  show "\<forall>s. description p = Some s \<longrightarrow> length s \<le> 2000"
  proof (intro allI impI)
    fix s assume "description p = Some s"
    with f(2) have "optional_str None (Some 2000) (map_of body k_description) = Some (Some s)"
      by simp
    from optional_str_SomeD(2) [OF this] show "length s \<le> 2000" by simp
  qed
qed

lemma new_document_response:
  assumes "ProjectCreate_validate body = Some p"
  shows "ProjectOut_new (serialize_doc (Some (new_document (OID bs) clock p)))
     = Inr \<lparr>name = name p, description = description p, status = status p,
            owner_email = owner_email p, due_date = due_date p,
            id' = hexlify bs,
            created_at = Some (isoformat (now_utc clock)),
            updated_at = None\<rparr>"
proof -
  from new_document_serialized [of bs clock p] obtain out where
    out: "serialize_doc (Some (new_document (OID bs) clock p)) = Some out"
    and l: "map_of out k_name = Some (PStr (name p))"
      "map_of out k_description = Some (opt_val (description p))"
      "map_of out k_status = Some (PStr (status p))"
      "map_of out k_owner_email = Some (opt_val (owner_email p))"
      "map_of out k_due_date = Some (opt_val (due_date p))"
    and i: "map_of out k_id = Some (PStr (hexlify bs))"
      "map_of out k_created_at = Some (PStr (isoformat (now_utc clock)))"
      "map_of out k_updated_at = None"
    by blast
  note b = ProjectCreate_validate_bounds [OF assms]
  have v: "ProjectCreate_validate out = Some p"
    using b l by (rule ProjectCreate_validate_lookup)
  have "ProjectOut_validate out
     = Some \<lparr>name = name p, description = description p, status = status p,
             owner_email = owner_email p, due_date = due_date p,
             id' = hexlify bs,
             created_at = Some (isoformat (now_utc clock)),
             updated_at = None\<rparr>"
    by (simp add: ProjectOut_validate_def v i required_str_def optional_str_def check_str_def)
  with out show ?thesis by (simp add: ProjectOut_new_def)
qed

lemma create_project_stores:
  assumes ok: "ProjectCreate_validate body = Some p"
    and len: "length bs = 12" and bytes: "\<forall>b\<in>set bs. b < 256"
    and fresh: "find_one (colls d COLL) (OID bs) = None"
  shows "create_project (create_document_spec (OID bs) clock) (Some d) p
     = (Inr \<lparr>name = name p, description = description p, status = status p,
             owner_email = owner_email p, due_date = due_date p,
             id' = hexlify bs,
             created_at = Some (isoformat (now_utc clock)),
             updated_at = None\<rparr>,
        Some (d\<lparr>colls := (colls d)(COLL := colls d COLL @ [new_document (OID bs) clock p]),
                calls := calls d @ [FindOne COLL (OID bs)]\<rparr>))"
proof -
  from generated_id_valid [OF len bytes]
  have v: "is_valid (hexlify bs)" and o: "ObjectId (hexlify bs) = OID bs" by simp_all
  have m: "matches_id (OID bs) (new_document (OID bs) clock p)"
    by (simp add: matches_id_def new_document_lookup)
  have f: "find_one (colls d COLL @ [new_document (OID bs) clock p]) (OID bs)
             = Some (new_document (OID bs) clock p)"
    using m by (simp add: find_one_append [OF fresh] find_one_Cons)
  show ?thesis
    by (simp add: create_project_def create_document_spec_eq v o f Let_def
          new_document_response [OF ok])
qed


lemma required_str_iff:
  "(\<exists>s. required_str (Some 1) (Some 120) x = Some s)
     \<longleftrightarrow> (\<exists>s. x = Some (PStr s) \<and> 1 \<le> length s \<and> length s \<le> 120)"
proof
  assume "\<exists>s. required_str (Some 1) (Some 120) x = Some s"
  then obtain s where s: "required_str (Some 1) (Some 120) x = Some s" by blast
  from required_str_SomeD [OF s] have "x = Some (PStr s) \<and> 1 \<le> length s \<and> length s \<le> 120"
    by simp
  then show "\<exists>s. x = Some (PStr s) \<and> 1 \<le> length s \<and> length s \<le> 120" by blast
next
  assume "\<exists>s. x = Some (PStr s) \<and> 1 \<le> length s \<and> length s \<le> 120"
  then show "\<exists>s. required_str (Some 1) (Some 120) x = Some s"
    by (auto simp: required_str_def check_str_def)
qed

lemma optional_str_iff:
  "(\<exists>r. optional_str None hi x = Some r)
     \<longleftrightarrow> (x = None \<or> x = Some PNone
          \<or> (\<exists>s. x = Some (PStr s) \<and> (case hi of None \<Rightarrow> True | Some h \<Rightarrow> length s \<le> h)))"
proof (cases x)
  case None
  then show ?thesis by (simp add: optional_str_def)
next
  case (Some v)
  then show ?thesis
    by (cases v) (simp_all add: optional_str_def check_str_def)
qed

lemma default_str_iff:
  "(\<exists>r. default_str dflt x = Some r) \<longleftrightarrow> (x = None \<or> (\<exists>s. x = Some (PStr s)))"
proof (cases x)
  case None
  then show ?thesis by (simp add: default_str_def)
next
  case (Some v)
  then show ?thesis
    by (cases v) (simp_all add: default_str_def check_str_def)
qed

lemma ProjectCreate_validate_iff:
  "(\<exists>q. ProjectCreate_validate body = Some q)
     \<longleftrightarrow> (\<exists>n. required_str (Some 1) (Some 120) (map_of body k_name) = Some n)
        \<and> (\<exists>r. optional_str None (Some 2000) (map_of body k_description) = Some r)
        \<and> (\<exists>r. default_str (ascii ''active'') (map_of body k_status) = Some r)
        \<and> (\<exists>r. optional_str None None (map_of body k_owner_email) = Some r)
        \<and> (\<exists>r. optional_str None None (map_of body k_due_date) = Some r)"
  by (auto simp: ProjectCreate_validate_def bind_eq_Some_conv)

lemma ProjectCreate_accepts_iff:
  "(\<exists>q. ProjectCreate_validate body = Some q)
     \<longleftrightarrow> (\<exists>s. map_of body k_name = Some (PStr s) \<and> 1 \<le> length s \<and> length s \<le> 120)
        \<and> (map_of body k_description = None \<or> map_of body k_description = Some PNone
             \<or> (\<exists>s. map_of body k_description = Some (PStr s) \<and> length s \<le> 2000))
        \<and> (map_of body k_status = None \<or> (\<exists>s. map_of body k_status = Some (PStr s)))
        \<and> (map_of body k_owner_email = None \<or> map_of body k_owner_email = Some PNone
             \<or> (\<exists>s. map_of body k_owner_email = Some (PStr s)))
        \<and> (map_of body k_due_date = None \<or> map_of body k_due_date = Some PNone
             \<or> (\<exists>s. map_of body k_due_date = Some (PStr s)))"
  unfolding ProjectCreate_validate_iff required_str_iff optional_str_iff default_str_iff
  by simp


text \<open>
  C6. A create body is accepted exactly when its \<open>name\<close> is a string of 1 to 120
  characters, its \<open>description\<close> is absent, \<open>null\<close> or a string of at most 2000, and
  the other fields are strings where they are given (\<open>null\<close> allowed for the optional
  ones). A body without a name, with a name outside the bounds or with a longer description
  is answered 422 by the route, the store untouched. An accepted body with no \<open>status\<close>
  gives a payload with the status \<open>active\<close>. With the store adapter of the
  specification, a store that is there and an identifier of twelve bytes that is new, the
  handler inserts one document holding the fields of the payload, and answers with the
  project read back from it: the created project has the name of the body and, when the
  body has no status, the status \<open>active\<close>, in the store and in the response.
\<close>

theorem create_validates_and_stores:
  "(ProjectCreate_validate body = Some p \<longrightarrow>
        map_of body k_name = Some (PStr (name p))
      \<and> 1 \<le> length (name p) \<and> length (name p) \<le> 120
      \<and> (\<forall>s. description p = Some s \<longrightarrow> length s \<le> 2000)
      \<and> (map_of body k_status = None \<longrightarrow> status p = ascii ''active'')
      \<and> post_api_projects create_document db body = create_project create_document db p)
   \<and> (map_of body k_name = None
        \<or> (\<exists>s. map_of body k_name = Some (PStr s) \<and> (length s < 1 \<or> 120 < length s))
        \<or> (\<exists>s. map_of body k_description = Some (PStr s) \<and> 2000 < length s)
       \<longrightarrow> post_api_projects create_document db body = (Inl RequestValidationError, db)
         \<and> status_code (fst (post_api_projects create_document db body)) = 422)
   \<and> ((\<exists>q. ProjectCreate_validate body = Some q)
        \<longleftrightarrow> (\<exists>s. map_of body k_name = Some (PStr s) \<and> 1 \<le> length s \<and> length s \<le> 120)
          \<and> (map_of body k_description = None \<or> map_of body k_description = Some PNone
               \<or> (\<exists>s. map_of body k_description = Some (PStr s) \<and> length s \<le> 2000))
          \<and> (map_of body k_status = None \<or> (\<exists>s. map_of body k_status = Some (PStr s)))
          \<and> (map_of body k_owner_email = None \<or> map_of body k_owner_email = Some PNone
               \<or> (\<exists>s. map_of body k_owner_email = Some (PStr s)))
          \<and> (map_of body k_due_date = None \<or> map_of body k_due_date = Some PNone
               \<or> (\<exists>s. map_of body k_due_date = Some (PStr s))))
   \<and> (ProjectCreate_validate body = None \<longrightarrow>
          post_api_projects create_document db body = (Inl RequestValidationError, db))
   \<and> (ProjectCreate_validate body = Some p \<longrightarrow> length bs = 12 \<longrightarrow> (\<forall>b\<in>set bs. b < 256) \<longrightarrow>
        find_one (colls d COLL) (OID bs) = None \<longrightarrow>
          post_api_projects (create_document_spec (OID bs) clock) (Some d) body
            = (Inr \<lparr>name = name p, description = description p, status = status p,
                    owner_email = owner_email p, due_date = due_date p,
                    id' = hexlify bs,
                    created_at = Some (isoformat (now_utc clock)),
                    updated_at = None\<rparr>,
               Some (d\<lparr>colls := (colls d)
                         (COLL := colls d COLL @ [new_document (OID bs) clock p]),
                       calls := calls d @ [FindOne COLL (OID bs)]\<rparr>))
        \<and> find_one (colls d COLL @ [new_document (OID bs) clock p]) (OID bs)
            = Some (new_document (OID bs) clock p)
        \<and> map_of (new_document (OID bs) clock p) k_name = Some (PStr (name p))
        \<and> map_of (new_document (OID bs) clock p) k_status = Some (PStr (status p))
        \<and> (map_of body k_status = None \<longrightarrow>
              status p = ascii ''active''
            \<and> map_of (new_document (OID bs) clock p) k_status = Some (PStr (ascii ''active''))))"
proof (intro conjI impI)
  assume ok: "ProjectCreate_validate body = Some p"
  note f = ProjectCreate_validate_fields [OF ok]
  from required_str_SomeD(1) [OF f(1)]
  show "map_of body k_name = Some (PStr (name p))" .
  from ProjectCreate_validate_bounds [OF ok]
  show "1 \<le> length (name p)" and "length (name p) \<le> 120"
    and "\<forall>s. description p = Some s \<longrightarrow> length s \<le> 2000" .
  show "post_api_projects create_document db body = create_project create_document db p"
    using ok by (simp add: post_api_projects_def)
  assume "map_of body k_status = None"
  with f(3) show "status p = ascii ''active''" by (simp add: default_str_def)
next
  assume bad: "map_of body k_name = None
        \<or> (\<exists>s. map_of body k_name = Some (PStr s) \<and> (length s < 1 \<or> 120 < length s))
        \<or> (\<exists>s. map_of body k_description = Some (PStr s) \<and> 2000 < length s)"
  have "ProjectCreate_validate body = None"
    using bad bad_name_rejected [of body] bad_description_rejected [of body] by blast
  then show "post_api_projects create_document db body = (Inl RequestValidationError, db)"
    and "status_code (fst (post_api_projects create_document db body)) = 422"
    by (simp_all add: post_api_projects_def)
next
  show "(\<exists>q. ProjectCreate_validate body = Some q)
        \<longleftrightarrow> (\<exists>s. map_of body k_name = Some (PStr s) \<and> 1 \<le> length s \<and> length s \<le> 120)
          \<and> (map_of body k_description = None \<or> map_of body k_description = Some PNone
               \<or> (\<exists>s. map_of body k_description = Some (PStr s) \<and> length s \<le> 2000))
          \<and> (map_of body k_status = None \<or> (\<exists>s. map_of body k_status = Some (PStr s)))
          \<and> (map_of body k_owner_email = None \<or> map_of body k_owner_email = Some PNone
               \<or> (\<exists>s. map_of body k_owner_email = Some (PStr s)))
          \<and> (map_of body k_due_date = None \<or> map_of body k_due_date = Some PNone
               \<or> (\<exists>s. map_of body k_due_date = Some (PStr s)))"
    by (rule ProjectCreate_accepts_iff)
next
  assume "ProjectCreate_validate body = None"
  then show "post_api_projects create_document db body = (Inl RequestValidationError, db)"
    by (simp add: post_api_projects_def)
next
  assume ok: "ProjectCreate_validate body = Some p"
    and len: "length bs = 12" and bytes: "\<forall>b\<in>set bs. b < 256"
    and fresh: "find_one (colls d COLL) (OID bs) = None"
  from create_project_stores [OF ok len bytes fresh, of clock] ok
  show "post_api_projects (create_document_spec (OID bs) clock) (Some d) body
            = (Inr \<lparr>name = name p, description = description p, status = status p,
                    owner_email = owner_email p, due_date = due_date p,
                    id' = hexlify bs,
                    created_at = Some (isoformat (now_utc clock)),
                    updated_at = None\<rparr>,
               Some (d\<lparr>colls := (colls d)
                         (COLL := colls d COLL @ [new_document (OID bs) clock p]),
                       calls := calls d @ [FindOne COLL (OID bs)]\<rparr>))"
    by (simp add: post_api_projects_def)
  have m: "matches_id (OID bs) (new_document (OID bs) clock p)"
    by (simp add: matches_id_def new_document_lookup)
  show "find_one (colls d COLL @ [new_document (OID bs) clock p]) (OID bs)
            = Some (new_document (OID bs) clock p)"
    using m by (simp add: find_one_append [OF fresh] find_one_Cons)
  show "map_of (new_document (OID bs) clock p) k_name = Some (PStr (name p))"
    and s: "map_of (new_document (OID bs) clock p) k_status = Some (PStr (status p))"
    by (simp_all add: new_document_lookup)
  assume "map_of body k_status = None"
  with ProjectCreate_validate_fields(3) [OF ok]
  show a: "status p = ascii ''active''" by (simp add: default_str_def)
  with s show "map_of (new_document (OID bs) clock p) k_status = Some (PStr (ascii ''active''))"
    by simp
qed

lemma new_id_bytes_ok: "length new_id_bytes = 12" "\<forall>b\<in>set new_id_bytes. b < 256"
  by (simp_all add: new_id_bytes_def)

lemma new_id_fresh: "find_one (colls example_db COLL) (OID new_id_bytes) = None"
  by (simp add: find_one_def example_db_def matches_id_def example_doc_def ObjectId_def
        example_id_def new_id_bytes_def ascii_def is_space_def hex_value_def)

lemma new_id_hex: "hexlify new_id_bytes = ascii ''0123456789abcdefabcdef01''"
  by (simp add: hexlify_def new_id_bytes_def hexdigit_def ascii_def)

theorem create_validates_and_stores_witness:
  "ProjectCreate_validate launch_body = Some launch
   \<and> map_of launch_body k_status = None
   \<and> length new_id_bytes = 12 \<and> list_all (\<lambda>b. b < 256) new_id_bytes
   \<and> find_one (colls example_db COLL) (OID new_id_bytes) = None
   \<and> post_api_projects (create_document_spec (OID new_id_bytes) example_clock)
         (Some example_db) launch_body
       = (Inr \<lparr>name = ascii ''Launch'', description = None, status = ascii ''active'',
               owner_email = None, due_date = None,
               id' = ascii ''0123456789abcdefabcdef01'',
               created_at = Some (isoformat (now_utc example_clock)),
               updated_at = None\<rparr>,
          Some (example_db\<lparr>colls := (colls example_db)
                    (COLL := colls example_db COLL
                               @ [new_document (OID new_id_bytes) example_clock launch]),
                  calls := calls example_db @ [FindOne COLL (OID new_id_bytes)]\<rparr>))
   \<and> map_of (new_document (OID new_id_bytes) example_clock launch) k_status
       = Some (PStr (ascii ''active''))
   \<and> map_of empty_name_body k_name = Some (PStr []) \<and> length ([] :: pystr) < 1
   \<and> post_api_projects (create_document_spec (OID new_id_bytes) example_clock)
         (Some example_db) empty_name_body
       = (Inl RequestValidationError, Some example_db)
   \<and> status_code (fst (post_api_projects (create_document_spec (OID new_id_bytes) example_clock)
         (Some example_db) empty_name_body)) = 422"
proof -
  have s: "map_of launch_body k_status = None"
    by (simp add: launch_body_def key_defs)
  have e: "map_of empty_name_body k_name = Some (PStr [])"
    by (simp add: empty_name_body_def)
  have l: "name launch = ascii ''Launch''" "description launch = None"
    "status launch = ascii ''active''" "owner_email launch = None" "due_date launch = None"
    by (simp_all add: launch_def)
  note a = create_validates_and_stores [of launch_body launch
             "create_document_spec (OID new_id_bytes) example_clock" "Some example_db"
             new_id_bytes example_db example_clock]
  note b = create_validates_and_stores [of empty_name_body launch
             "create_document_spec (OID new_id_bytes) example_clock" "Some example_db"
             new_id_bytes example_db example_clock]
  from a launch_body_valid s new_id_bytes_ok new_id_fresh have
    "post_api_projects (create_document_spec (OID new_id_bytes) example_clock)
         (Some example_db) launch_body
       = (Inr \<lparr>name = name launch, description = description launch, status = status launch,
               owner_email = owner_email launch, due_date = due_date launch,
               id' = hexlify new_id_bytes,
               created_at = Some (isoformat (now_utc example_clock)),
               updated_at = None\<rparr>,
          Some (example_db\<lparr>colls := (colls example_db)
                    (COLL := colls example_db COLL
                               @ [new_document (OID new_id_bytes) example_clock launch]),
                  calls := calls example_db @ [FindOne COLL (OID new_id_bytes)]\<rparr>))"
    "map_of (new_document (OID new_id_bytes) example_clock launch) k_status
       = Some (PStr (ascii ''active''))"
    by blast+
  then have c: "post_api_projects (create_document_spec (OID new_id_bytes) example_clock)
         (Some example_db) launch_body
       = (Inr \<lparr>name = ascii ''Launch'', description = None, status = ascii ''active'',
               owner_email = None, due_date = None,
               id' = ascii ''0123456789abcdefabcdef01'',
               created_at = Some (isoformat (now_utc example_clock)),
               updated_at = None\<rparr>,
          Some (example_db\<lparr>colls := (colls example_db)
                    (COLL := colls example_db COLL
                               @ [new_document (OID new_id_bytes) example_clock launch]),
                  calls := calls example_db @ [FindOne COLL (OID new_id_bytes)]\<rparr>))"
    and c': "map_of (new_document (OID new_id_bytes) example_clock launch) k_status
       = Some (PStr (ascii ''active''))"
    by (simp_all only: l new_id_hex)
  from b e have r:
    "post_api_projects (create_document_spec (OID new_id_bytes) example_clock)
         (Some example_db) empty_name_body
       = (Inl RequestValidationError, Some example_db)"
    "status_code (fst (post_api_projects (create_document_spec (OID new_id_bytes) example_clock)
         (Some example_db) empty_name_body)) = 422"
    by auto
  have w: "list_all (\<lambda>b. b < 256) new_id_bytes"
    by (simp add: new_id_bytes_def)
  from launch_body_valid s new_id_bytes_ok(1) w new_id_fresh c c' e r show ?thesis by simp
qed

section \<open>Listing projects\<close>

lemma ProjectOut_new_error:
  "ProjectOut_new x = Inl e \<Longrightarrow> e = TypeError \<or> e = ValidationError"
proof (cases x)
  case None
  then show "ProjectOut_new x = Inl e \<Longrightarrow> e = TypeError \<or> e = ValidationError"
    by (auto simp: ProjectOut_new_def)
next
  case (Some d)
  then show "ProjectOut_new x = Inl e \<Longrightarrow> e = TypeError \<or> e = ValidationError"
    by (cases "ProjectOut_validate d") (auto simp: ProjectOut_new_def)
qed

lemma collect_all_ok:
  "\<forall>r\<in>set rs. \<exists>x. r = Inr x \<Longrightarrow> \<exists>xs. collect rs = Inr xs \<and> map Inr xs = rs"
proof (induction rs)
  case Nil
  then show ?case by simp
next
  case (Cons r rs)
  then obtain x where r: "r = Inr x" by auto
  from Cons obtain xs where xs: "collect rs = Inr xs" "map Inr xs = rs" by auto
  with r have "collect (r # rs) = Inr (x # xs) \<and> map Inr (x # xs) = r # rs" by simp
  then show ?case by (rule exI)
qed

lemma collect_first_error:
  "\<exists>r\<in>set rs. \<exists>e. r = Inl e \<Longrightarrow> \<exists>e. collect rs = Inl e \<and> Inl e \<in> set rs"
proof (induction rs)
  case Nil
  then show ?case by simp
next
  case (Cons r rs)
  show ?case
  proof (cases r)
    case (Inl e)
    then have "collect (r # rs) = Inl e \<and> Inl e \<in> set (r # rs)" by simp
    then show ?thesis by (rule exI)
  next
    case (Inr x)
    with Cons.prems have "\<exists>r\<in>set rs. \<exists>e. r = Inl e" by auto
    from Cons.IH [OF this] obtain e where "collect rs = Inl e" "Inl e \<in> set rs" by blast
    with Inr have "collect (r # rs) = Inl e \<and> Inl e \<in> set (r # rs)" by simp
    then show ?thesis by (rule exI)
  qed
qed

lemma list_projects_fetched:
  "get_documents COLL [] (case limit_param of None \<Rightarrow> 100 | Some n \<Rightarrow> n) = Inr docs \<Longrightarrow>
     list_projects get_documents limit_param
       = collect (map (\<lambda>d. ProjectOut_new (serialize_doc (Some d))) docs)"
  by (simp add: list_projects_def)

text \<open>
  C8, as the code has it. Without the query parameter the handler fetches with the limit
  100. When the fetch succeeds and every fetched document makes a \<open>ProjectOut\<close>, the
  answer is 200 with the serialized projects, in the order fetched (none, for an empty
  result). A fetched document that does not make a \<open>ProjectOut\<close>, or a fetch that
  raises, ends the request with an unhandled exception, a 500.
\<close>

theorem list_projects_default_limit:
  "list_projects get_documents None = list_projects get_documents (Some 100)
   \<and> (get_documents COLL [] (case limit_param of None \<Rightarrow> 100 | Some n \<Rightarrow> n) = Inr docs \<longrightarrow>
        (\<forall>d\<in>set docs. \<exists>p. ProjectOut_new (serialize_doc (Some d)) = Inr p) \<longrightarrow>
          (\<exists>ps. list_projects get_documents limit_param = Inr ps
             \<and> status_code (list_projects get_documents limit_param) = 200
             \<and> map Inr ps = map (\<lambda>d. ProjectOut_new (serialize_doc (Some d))) docs))
   \<and> (get_documents COLL [] (case limit_param of None \<Rightarrow> 100 | Some n \<Rightarrow> n) = Inr docs \<longrightarrow>
        (\<exists>d\<in>set docs. \<exists>e. ProjectOut_new (serialize_doc (Some d)) = Inl e) \<longrightarrow>
          status_code (list_projects get_documents limit_param) = 500)
   \<and> (get_documents COLL [] (case limit_param of None \<Rightarrow> 100 | Some n \<Rightarrow> n) = Inl e \<longrightarrow>
          list_projects get_documents limit_param = Inl (Raised e)
        \<and> status_code (list_projects get_documents limit_param) = 500)"
proof (intro conjI impI)
  show "list_projects get_documents None = list_projects get_documents (Some 100)"
    by (simp add: list_projects_def)
next
  assume g: "get_documents COLL [] (case limit_param of None \<Rightarrow> 100 | Some n \<Rightarrow> n) = Inr docs"
    and ok: "\<forall>d\<in>set docs. \<exists>p. ProjectOut_new (serialize_doc (Some d)) = Inr p"
  let ?rs = "map (\<lambda>d. ProjectOut_new (serialize_doc (Some d))) docs"
  from ok have "\<forall>r\<in>set ?rs. \<exists>x. r = Inr x" by auto
  from collect_all_ok [OF this] obtain ps where "collect ?rs = Inr ps" "map Inr ps = ?rs"
    by blast
  with list_projects_fetched [of get_documents limit_param docs, OF g]
  have "list_projects get_documents limit_param = Inr ps
      \<and> status_code (list_projects get_documents limit_param) = 200
      \<and> map Inr ps = ?rs"
    by simp
  then show "\<exists>ps. list_projects get_documents limit_param = Inr ps
             \<and> status_code (list_projects get_documents limit_param) = 200
             \<and> map Inr ps = ?rs"
    by blast
next
  assume g: "get_documents COLL [] (case limit_param of None \<Rightarrow> 100 | Some n \<Rightarrow> n) = Inr docs"
    and bad: "\<exists>d\<in>set docs. \<exists>e. ProjectOut_new (serialize_doc (Some d)) = Inl e"
  let ?rs = "map (\<lambda>d. ProjectOut_new (serialize_doc (Some d))) docs"
  from bad have "\<exists>r\<in>set ?rs. \<exists>e. r = Inl e" by auto
  from collect_first_error [OF this] obtain e where
    c: "collect ?rs = Inl e" and m: "Inl e \<in> set ?rs"
    by blast
  from m obtain d where "ProjectOut_new (serialize_doc (Some d)) = Inl e" by auto
  from ProjectOut_new_error [OF this] have "e = TypeError \<or> e = ValidationError" .
  with c list_projects_fetched [of get_documents limit_param docs, OF g]
  show "status_code (list_projects get_documents limit_param) = 500" by auto
next
  assume g: "get_documents COLL [] (case limit_param of None \<Rightarrow> 100 | Some n \<Rightarrow> n) = Inl e"
  then show "list_projects get_documents limit_param = Inl (Raised e)"
    and "status_code (list_projects get_documents limit_param) = 500"
    by (simp_all add: list_projects_def)
qed


lemma null_name_stored:
  "get_documents_spec (snd (update_project (Some example_db) example_clock example_id null_name))
     COLL [] 100 = Inr [nameless_doc]"
  by code_simp

lemma nameless_doc_invalid:
  "ProjectOut_new (serialize_doc (Some nameless_doc)) = Inl ValidationError"
  by code_simp

lemma example_fetch: "get_documents_spec (Some example_db) COLL [] 100 = Inr [example_doc]"
  by code_simp

lemma example_doc_valid:
  "ProjectOut_new (serialize_doc (Some example_doc))
     = Inr \<lparr>name = ascii ''Launch'', description = None, status = ascii ''active'',
            owner_email = None, due_date = None,
            id' = ascii ''507f1f77bcf86cd799439011'',
            created_at = Some (ascii ''2024-03-09T01:02:03''),
            updated_at = None\<rparr>"
  by code_simp

lemma no_store_fetch:
  "get_documents_spec None COLL [] 100 = Inl (Exception (ascii ''StoreUnavailable''))"
  by (simp add: get_documents_spec_def)

text \<open>
  The claim as it was written, 200 whatever the store holds, fails on the store that the
  update \<open>{"name": null}\<close> leaves: its document has no string name, and the list handler
  ends in a validation error.
\<close>

theorem list_projects_nameless_counterexample:
  "get_documents_spec (snd (update_project (Some example_db) example_clock example_id null_name))
     COLL [] 100 = Inr [nameless_doc]
   \<and> list_projects
        (get_documents_spec
           (snd (update_project (Some example_db) example_clock example_id null_name))) None
       = Inl ValidationError
   \<and> status_code (list_projects
        (get_documents_spec
           (snd (update_project (Some example_db) example_clock example_id null_name))) None)
       \<noteq> 200"
  using null_name_stored nameless_doc_invalid
  by (simp add: list_projects_def)

theorem list_projects_default_limit_witness:
  "get_documents_spec (Some example_db) COLL [] 100 = Inr [example_doc]
   \<and> list_projects (get_documents_spec (Some example_db)) None
       = Inr [\<lparr>name = ascii ''Launch'', description = None, status = ascii ''active'',
               owner_email = None, due_date = None,
               id' = ascii ''507f1f77bcf86cd799439011'',
               created_at = Some (ascii ''2024-03-09T01:02:03''),
               updated_at = None\<rparr>]
   \<and> status_code (list_projects (get_documents_spec (Some example_db)) None) = 200
   \<and> get_documents_spec (snd (update_project (Some example_db) example_clock example_id null_name))
        COLL [] 100 = Inr [nameless_doc]
   \<and> ProjectOut_new (serialize_doc (Some nameless_doc)) = Inl ValidationError
   \<and> status_code (list_projects
        (get_documents_spec
           (snd (update_project (Some example_db) example_clock example_id null_name))) None)
       = 500
   \<and> get_documents_spec None COLL [] 100 = Inl (Exception (ascii ''StoreUnavailable''))
   \<and> list_projects (get_documents_spec None) None
       = Inl (Raised (Exception (ascii ''StoreUnavailable'')))"
proof -
  note a = list_projects_default_limit
             [of "get_documents_spec (Some example_db)" None "[example_doc]"]
  note b = list_projects_default_limit
             [of "get_documents_spec
                    (snd (update_project (Some example_db) example_clock example_id null_name))"
                 None "[nameless_doc]"]
  note c = list_projects_default_limit
             [of "get_documents_spec None" None _ "Exception (ascii ''StoreUnavailable'')"]
  have
    "list_projects (get_documents_spec (Some example_db)) None
       = Inr [\<lparr>name = ascii ''Launch'', description = None, status = ascii ''active'',
               owner_email = None, due_date = None,
               id' = ascii ''507f1f77bcf86cd799439011'',
               created_at = Some (ascii ''2024-03-09T01:02:03''),
               updated_at = None\<rparr>]
     \<and> status_code (list_projects (get_documents_spec (Some example_db)) None) = 200"
  proof -
    have g: "get_documents_spec (Some example_db) COLL []
               (case None of None \<Rightarrow> 100 | Some n \<Rightarrow> n) = Inr [example_doc]"
      using example_fetch by simp
    have ok: "\<forall>d\<in>set [example_doc]. \<exists>p. ProjectOut_new (serialize_doc (Some d)) = Inr p"
      using example_doc_valid by simp
    from a g ok obtain ps where
      ps: "list_projects (get_documents_spec (Some example_db)) None = Inr ps"
        "status_code (list_projects (get_documents_spec (Some example_db)) None) = 200"
        "map Inr ps = map (\<lambda>d. ProjectOut_new (serialize_doc (Some d))) [example_doc]"
      by blast
    from ps(3) example_doc_valid have "ps = [\<lparr>name = ascii ''Launch'', description = None,
               status = ascii ''active'', owner_email = None, due_date = None,
               id' = ascii ''507f1f77bcf86cd799439011'',
               created_at = Some (ascii ''2024-03-09T01:02:03''),
               updated_at = None\<rparr>]"
      by (cases ps) auto
    with ps(1,2) show ?thesis by simp
  qed
  moreover have
    "status_code (list_projects
        (get_documents_spec
           (snd (update_project (Some example_db) example_clock example_id null_name))) None)
       = 500"
  proof -
    have g: "get_documents_spec
        (snd (update_project (Some example_db) example_clock example_id null_name))
        COLL [] (case None of None \<Rightarrow> 100 | Some n \<Rightarrow> n) = Inr [nameless_doc]"
      using null_name_stored by simp
    have bad: "\<exists>d\<in>set [nameless_doc]. \<exists>e. ProjectOut_new (serialize_doc (Some d)) = Inl e"
      using nameless_doc_invalid by simp
    from b g bad show ?thesis by blast
  qed
  moreover have
    "list_projects (get_documents_spec None) None
       = Inl (Raised (Exception (ascii ''StoreUnavailable'')))"
  proof -
    have g: "get_documents_spec None COLL [] (case None of None \<Rightarrow> 100 | Some n \<Rightarrow> n)
               = Inl (Exception (ascii ''StoreUnavailable''))"
      using no_store_fetch by simp
    from c g show ?thesis by blast
  qed
  ultimately show ?thesis
    using example_fetch null_name_stored nameless_doc_invalid no_store_fetch by simp
qed

section \<open>Diagnostics\<close>

lemma test_database_eq:
  "test_database db env =
     Inr ((case try_body db initial_response of
             (r, None) \<Rightarrow> r
           | (r, Some e) \<Rightarrow>
               r\<lparr>database := cross_mark @ ascii '' Error: '' @ take 50 (str_exn e)\<rparr>)
          \<lparr>database_url :=
             Some (if truthy (getenv env (ascii ''DATABASE_URL'')) then SET else NOT_SET),
           database_name :=
             Some (if truthy (getenv env (ascii ''DATABASE_NAME'')) then SET else NOT_SET)\<rparr>)"
  by (simp add: test_database_def Let_def)

lemma try_body_None:
  "try_body None r
     = (r\<lparr>database := warning_sign @ ascii ''  Available but not initialized''\<rparr>, None)"
  by (simp add: try_body_def)

lemma try_body_attr_raises:
  "db_name d = AttributeRaises e \<Longrightarrow>
     try_body (Some d) r
       = (r\<lparr>database := check_mark @ ascii '' Available'',
             database_url := Some (check_mark @ ascii '' Configured'')\<rparr>, Some e)"
  by (simp add: try_body_def)

lemma try_body_names:
  "\<forall>e. db_name d \<noteq> AttributeRaises e \<Longrightarrow> list_collection_names d = Inr names \<Longrightarrow>
     try_body (Some d) r
       = (r\<lparr>database := check_mark @ ascii '' Connected & Working'',
             database_url := Some (check_mark @ ascii '' Configured''),
             database_name := Some (case db_name d of Attribute n \<Rightarrow> n
                                    | _ \<Rightarrow> check_mark @ ascii '' Connected''),
             connection_status := ascii ''Connected'',
             collections := take 10 names\<rparr>, None)"
  by (cases "db_name d") (simp_all add: try_body_def)

lemma try_body_names_raise:
  "\<forall>e. db_name d \<noteq> AttributeRaises e \<Longrightarrow> list_collection_names d = Inl e \<Longrightarrow>
     try_body (Some d) r
       = (r\<lparr>database := warning_sign @ ascii ''  Connected but Error: '' @ take 50 (str_exn e),
             database_url := Some (check_mark @ ascii '' Configured''),
             database_name := Some (case db_name d of Attribute n \<Rightarrow> n
                                    | _ \<Rightarrow> check_mark @ ascii '' Connected''),
             connection_status := ascii ''Connected''\<rparr>, None)"
  by (cases "db_name d") (simp_all add: try_body_def)

lemma try_body_collections:
  "length (collections (fst (try_body db r))) \<le> max 10 (length (collections r))"
proof (cases db)
  case None
  then show ?thesis by (simp add: try_body_None)
next
  case (Some d)
  show ?thesis
  proof (cases "\<exists>e. db_name d = AttributeRaises e")
    case True
    then obtain e where "db_name d = AttributeRaises e" by blast
    with Some show ?thesis by (simp add: try_body_attr_raises)
  next
    case False
    then have n: "\<forall>e. db_name d \<noteq> AttributeRaises e" by simp
    show ?thesis
    proof (cases "list_collection_names d")
      case (Inl e)
      with Some n show ?thesis by (simp add: try_body_names_raise)
    next
      case (Inr names)
      with Some n show ?thesis by (simp add: try_body_names)
    qed
  qed
qed


lemma truthy_getenv: "truthy (getenv env k) = (\<exists>v. env k = Some v \<and> v \<noteq> [])"
  by (cases "env k") (simp_all add: truthy_def getenv_def)

text \<open>
  C7. The diagnostics handler always returns its report, a 200, whatever the store does.
  An exception raised by the listing of the collections is caught by the inner handler, one
  raised before it by the outer one, and in both cases the field \<open>database\<close> of the
  report carries the first 50 characters of the message of the exception, after a fixed
  prefix. The field \<open>collections\<close> holds the first ten names of the listing, and never
  more than ten.
\<close>

theorem diagnostics_catches_errors:
  "\<exists>r. test_database db env = Inr r
     \<and> status_code (test_database db env) = 200
     \<and> length (collections r) \<le> 10
     \<and> (\<forall>d names. db = Some d \<longrightarrow> (\<forall>e. db_name d \<noteq> AttributeRaises e) \<longrightarrow>
           list_collection_names d = Inr names \<longrightarrow> collections r = take 10 names)
     \<and> (\<forall>d e. db = Some d \<longrightarrow> (\<forall>e'. db_name d \<noteq> AttributeRaises e') \<longrightarrow>
           list_collection_names d = Inl e \<longrightarrow>
             database r = warning_sign @ ascii ''  Connected but Error: '' @ take 50 (str_exn e)
           \<and> length (take 50 (str_exn e)) \<le> 50
           \<and> collections r = [])
     \<and> (\<forall>d e. db = Some d \<longrightarrow> db_name d = AttributeRaises e \<longrightarrow>
             database r = cross_mark @ ascii '' Error: '' @ take 50 (str_exn e)
           \<and> length (take 50 (str_exn e)) \<le> 50
           \<and> collections r = [])"
proof -
  let ?r0 = "case try_body db initial_response of
             (r, None) \<Rightarrow> r
           | (r, Some e) \<Rightarrow>
               r\<lparr>database := cross_mark @ ascii '' Error: '' @ take 50 (str_exn e)\<rparr>"
  let ?r = "?r0\<lparr>database_url :=
             Some (if truthy (getenv env (ascii ''DATABASE_URL'')) then SET else NOT_SET),
           database_name :=
             Some (if truthy (getenv env (ascii ''DATABASE_NAME'')) then SET else NOT_SET)\<rparr>"
  have r: "test_database db env = Inr ?r" by (rule test_database_eq)
  have c0: "collections ?r = collections (fst (try_body db initial_response))"
    by (cases "try_body db initial_response" rule: prod.exhaust)
       (simp split: option.splits)
  have len: "length (collections ?r) \<le> 10"
    using try_body_collections [of db initial_response]
    by (simp only: c0) (simp add: initial_response_def)
  have names: "\<forall>d names. db = Some d \<longrightarrow> (\<forall>e. db_name d \<noteq> AttributeRaises e) \<longrightarrow>
           list_collection_names d = Inr names \<longrightarrow> collections ?r = take 10 names"
    by (simp add: try_body_names)
  have inner: "\<forall>d e. db = Some d \<longrightarrow> (\<forall>e'. db_name d \<noteq> AttributeRaises e') \<longrightarrow>
           list_collection_names d = Inl e \<longrightarrow>
             database ?r = warning_sign @ ascii ''  Connected but Error: '' @ take 50 (str_exn e)
           \<and> length (take 50 (str_exn e)) \<le> 50
           \<and> collections ?r = []"
    by (simp add: try_body_names_raise initial_response_def)
  have outer: "\<forall>d e. db = Some d \<longrightarrow> db_name d = AttributeRaises e \<longrightarrow>
             database ?r = cross_mark @ ascii '' Error: '' @ take 50 (str_exn e)
           \<and> length (take 50 (str_exn e)) \<le> 50
           \<and> collections ?r = []"
    by (simp add: try_body_attr_raises initial_response_def)
  from r len names inner outer show ?thesis
    by (intro exI [of _ ?r] conjI) simp_all
qed

text \<open>
  C10, as the code has it. In every report \<open>database_url\<close> and \<open>database_name\<close> are
  \<open>Set\<close> when the variable \<open>DATABASE_URL\<close>, respectively \<open>DATABASE_NAME\<close>, is set to a
  string that is not empty, and \<open>Not Set\<close> otherwise. This does not depend on the store:
  any other store gives the same two fields, and the value that the connection check gave
  to \<open>database_url\<close> is overwritten.
\<close>

theorem diagnostics_env_fields:
  "\<exists>r. test_database db env = Inr r
     \<and> database_url r
         = Some (if (\<exists>v. env (ascii ''DATABASE_URL'') = Some v \<and> v \<noteq> []) then SET else NOT_SET)
     \<and> database_name r
         = Some (if (\<exists>v. env (ascii ''DATABASE_NAME'') = Some v \<and> v \<noteq> []) then SET else NOT_SET)
     \<and> (\<forall>db'. \<exists>r'. test_database db' env = Inr r'
            \<and> database_url r' = database_url r \<and> database_name r' = database_name r)
     \<and> (\<forall>d. db = Some d \<longrightarrow>
            database_url (fst (try_body db initial_response))
              = Some (check_mark @ ascii '' Configured''))"
proof -
  have conf: "\<forall>d. db = Some d \<longrightarrow>
            database_url (fst (try_body db initial_response))
              = Some (check_mark @ ascii '' Configured'')"
  proof (intro allI impI)
    fix d assume d: "db = Some d"
    show "database_url (fst (try_body db initial_response))
              = Some (check_mark @ ascii '' Configured'')"
    proof (cases "\<exists>e. db_name d = AttributeRaises e")
      case True
      then obtain e where "db_name d = AttributeRaises e" by blast
      with d show ?thesis by (simp add: try_body_attr_raises)
    next
      case False
      then have n: "\<forall>e. db_name d \<noteq> AttributeRaises e" by simp
      show ?thesis
      proof (cases "list_collection_names d")
        case (Inl e)
        with d n show ?thesis by (simp add: try_body_names_raise)
      next
        case (Inr names)
        with d n show ?thesis by (simp add: try_body_names)
      qed
    qed
  qed
  show ?thesis
    unfolding test_database_eq using conf by (simp add: truthy_getenv)
qed


lemma failing_db_facts:
  "\<forall>e. db_name failing_db \<noteq> AttributeRaises e"
  "list_collection_names failing_db = Inl (Exception (replicate 60 120))"
  by (simp_all add: failing_db_def example_db_def)

lemma broken_db_facts:
  "db_name broken_db = AttributeRaises (Exception (replicate 60 120))"
  by (simp add: broken_db_def)

lemma crowded_db_facts:
  "\<forall>e. db_name crowded_db \<noteq> AttributeRaises e"
  "list_collection_names crowded_db = Inr (map (\<lambda>n. [97 + n]) [0..<12])"
  by (simp_all add: crowded_db_def example_db_def)

theorem diagnostics_catches_errors_witness:
  "(\<exists>r. test_database (Some failing_db) Map.empty = Inr r
      \<and> database r = warning_sign @ ascii ''  Connected but Error: '' @ replicate 50 120
      \<and> collections r = [])
   \<and> (\<exists>r. test_database (Some broken_db) Map.empty = Inr r
      \<and> database r = cross_mark @ ascii '' Error: '' @ replicate 50 120
      \<and> collections r = [])
   \<and> (\<exists>r. test_database (Some crowded_db) Map.empty = Inr r
      \<and> collections r = map (\<lambda>n. [97 + n]) [0..<10] \<and> length (collections r) = 10)"
proof -
  from diagnostics_catches_errors [of "Some failing_db" Map.empty] failing_db_facts
  have a: "\<exists>r. test_database (Some failing_db) Map.empty = Inr r
      \<and> database r = warning_sign @ ascii ''  Connected but Error: '' @ replicate 50 120
      \<and> collections r = []"
    by auto
  from diagnostics_catches_errors [of "Some broken_db" Map.empty] broken_db_facts
  have b: "\<exists>r. test_database (Some broken_db) Map.empty = Inr r
      \<and> database r = cross_mark @ ascii '' Error: '' @ replicate 50 120
      \<and> collections r = []"
    by auto
  have t: "take 10 (map (\<lambda>n. [97 + n]) [0..<12]) = map (\<lambda>n::nat. [97 + n]) [0..<10]"
    by (simp add: take_map)
  from diagnostics_catches_errors [of "Some crowded_db" Map.empty] crowded_db_facts
  have c: "\<exists>r. test_database (Some crowded_db) Map.empty = Inr r
      \<and> collections r = map (\<lambda>n. [97 + n]) [0..<10] \<and> length (collections r) = 10"
    by (auto simp: t)
  from a b c show ?thesis by blast
qed

text \<open>
  The claim as it was written, that the two fields tell whether the variables are set, fails
  for a variable set to the empty string: \<open>DATABASE_URL\<close> is set, and the report says
  \<open>Not Set\<close>.
\<close>

theorem empty_database_url_counterexample:
  "getenv empty_url_env (ascii ''DATABASE_URL'') = Some []
   \<and> test_database (Some example_db) empty_url_env
       = Inr \<lparr>backend = check_mark @ ascii '' Running'',
              database = check_mark @ ascii '' Connected & Working'',
              database_url = Some NOT_SET,
              database_name = Some SET,
              connection_status = ascii ''Connected'',
              collections = [COLL]\<rparr>"
  by (simp add: test_database_eq try_body_def initial_response_def example_db_def
        empty_url_env_def getenv_def truthy_def)

theorem diagnostics_env_fields_witness:
  "(\<exists>r. test_database (Some example_db) full_env = Inr r
      \<and> database_url r = Some SET \<and> database_name r = Some SET
      \<and> database_url (fst (try_body (Some example_db) initial_response))
          = Some (check_mark @ ascii '' Configured''))
   \<and> (\<exists>r. test_database None full_env = Inr r
      \<and> database_url r = Some SET \<and> database_name r = Some SET)
   \<and> (\<exists>r. test_database None Map.empty = Inr r
      \<and> database_url r = Some NOT_SET \<and> database_name r = Some NOT_SET)"
proof -
  from diagnostics_env_fields [of "Some example_db" full_env]
  have a: "\<exists>r. test_database (Some example_db) full_env = Inr r
      \<and> database_url r = Some SET \<and> database_name r = Some SET
      \<and> database_url (fst (try_body (Some example_db) initial_response))
          = Some (check_mark @ ascii '' Configured'')"
    by (auto simp: full_env_def)
  from diagnostics_env_fields [of None full_env]
  have b: "\<exists>r. test_database None full_env = Inr r
      \<and> database_url r = Some SET \<and> database_name r = Some SET"
    by (auto simp: full_env_def)
  from diagnostics_env_fields [of None Map.empty]
  have c: "\<exists>r. test_database None Map.empty = Inr r
      \<and> database_url r = Some NOT_SET \<and> database_name r = Some NOT_SET"
    by auto
  from a b c show ?thesis by blast
qed

end
